theory Spec2Isabelle
  imports Main
begin

section \<open>Python values\<close>

text \<open>
  A Python \<open>str\<close> is a sequence of Unicode code points: \<open>len\<close> and slicing count code
  points, and the currency symbols of the game lie outside Latin-1. A text is therefore a
  list of code points; \<open>lit\<close> turns an ASCII literal into one.
\<close>

type_synonym pystr = "nat list"

definition lit :: "string \<Rightarrow> pystr" where
  "lit s = map of_char s"

text \<open>\<open>datetime.utcnow()\<close> is an input of every operation that reads the clock.\<close>

type_synonym timestamp = nat

text \<open>\<open>str(n)\<close> for an integer: decimal digits, with a minus sign below zero.\<close>

fun str_nat :: "nat \<Rightarrow> pystr" where
  "str_nat n = (if n < 10 then [48 + n] else str_nat (n div 10) @ [48 + n mod 10])"

declare str_nat.simps [simp del]

definition str_int :: "int \<Rightarrow> pystr" where
  "str_int i = (if i < 0 then lit ''-'' @ str_nat (nat (- i)) else str_nat (nat i))"

text \<open>The truth value of an optional integer id: \<open>None\<close> and \<open>0\<close> are false.\<close>

definition truthy_id :: "int option \<Rightarrow> bool" where
  "truthy_id x = (case x of None \<Rightarrow> False | Some i \<Rightarrow> i \<noteq> 0)"

text \<open>\<open>if x: f(x)\<close> for an optional integer id \<open>x\<close> and an update \<open>f\<close> of the state.\<close>

definition if_id :: "int option \<Rightarrow> (int \<Rightarrow> 's \<Rightarrow> 's) \<Rightarrow> 's \<Rightarrow> 's" where
  "if_id x f s = (case x of None \<Rightarrow> s | Some i \<Rightarrow> if i \<noteq> 0 then f i s else s)"

text \<open>\<open>if not xs: xs = []\<close>: a missing list is replaced by the empty one.\<close>

definition list_or_empty :: "'a list option \<Rightarrow> 'a list" where
  "list_or_empty xs = (case xs of None \<Rightarrow> [] | Some ys \<Rightarrow> ys)"

text \<open>\<open>if not d: d = {}\<close>: a missing (or empty) dictionary is replaced by the empty one.\<close>

definition dict_or_empty :: "('k \<rightharpoonup> 'v) option \<Rightarrow> ('k \<rightharpoonup> 'v)" where
  "dict_or_empty d = (case d of None \<Rightarrow> Map.empty | Some m \<Rightarrow> m)"

text \<open>
  A key of a dictionary that is read with \<open>get\<close>: the key is missing, or it holds \<open>None\<close>
  (a JSON null), or it holds a value. \<open>d.get(k, default)\<close> answers the default only for a
  missing key; a key that holds \<open>None\<close> answers \<open>None\<close>. In a result, \<open>None\<close> is Python's
  \<open>None\<close>. An f-string prints \<open>None\<close> as the text \<open>None\<close>.
\<close>

datatype 'a slot = Absent | Null | Present 'a

definition dict_get :: "'a slot \<Rightarrow> 'a \<Rightarrow> 'a option" where
  "dict_get f fallback = (case f of Absent \<Rightarrow> Some fallback | Null \<Rightarrow> None | Present v \<Rightarrow> Some v)"

definition format_text :: "pystr option \<Rightarrow> pystr" where
  "format_text x = (case x of None \<Rightarrow> lit ''None'' | Some t \<Rightarrow> t)"

definition format_int :: "int option \<Rightarrow> pystr" where
  "format_int x = (case x of None \<Rightarrow> lit ''None'' | Some i \<Rightarrow> str_int i)"

text \<open>\<open>xs.remove(x)\<close> under the guard \<open>x in xs\<close> deletes the first occurrence.\<close>

definition remove_if_present :: "'a \<Rightarrow> 'a list \<Rightarrow> 'a list" where
  "remove_if_present x xs = (if x \<in> set xs then remove1 x xs else xs)"

section \<open>Rows of the store\<close>

text \<open>One entry of a mission's \<open>progress_updates\<close> log; a key that an entry does not carry
  is \<open>None\<close>.\<close>

record progress_update =
  pu_progress :: "int option"
  pu_status :: pystr
  pu_timestamp :: timestamp
  pu_description :: "pystr option"
  pu_reason :: "pystr option"

text \<open>A \<open>Mission\<close> row. The primary key is the key of the table map.\<close>

record mission =
  m_user_id :: pystr
  m_title :: pystr
  m_giver_id :: "int option"
  m_target_id :: "int option"
  m_status :: pystr
  m_progress :: int
  m_progress_updates :: "progress_update list option"
  m_difficulty :: pystr
  m_reward_currency :: pystr
  m_reward_amount :: int
  m_completed_at :: "timestamp option"

text \<open>The snapshot kept per encountered character; each of its values may be \<open>None\<close>.\<close>

record char_snapshot =
  cs_name :: "pystr option"
  cs_backstory :: "pystr option"
  cs_plot_lines :: "pystr list option"

text \<open>A \<open>UserProgress\<close> row, keyed by user id in the table map.\<close>

record user_progress =
  current_story_id :: "int option"
  current_node_id :: "int option"
  node_count :: int
  last_active :: "timestamp option"
  choice_history :: "int list option"
  encountered_characters :: "(pystr \<rightharpoonup> char_snapshot) option"
  active_missions :: "int list option"
  completed_missions :: "int list option"
  failed_missions :: "int list option"
  currency_balances :: "pystr \<rightharpoonup> int"
  experience_points :: int
  relationships :: "int \<rightharpoonup> int"

section \<open>Mission state machine (mission_generator.py)\<close>

text \<open>The \<open>Mission\<close> table and the \<open>UserProgress\<close> table. \<open>Mission.query.get\<close> and
  \<open>UserProgress.query.filter_by(user_id=...).first()\<close> are lookups by key. The functions
  return their result together with the store after the call; the two readings of the clock
  in \<open>complete_mission\<close> are the one instant \<open>now\<close>.\<close>

record mission_store =
  missions :: "int \<rightharpoonup> mission"
  user_progresses :: "pystr \<rightharpoonup> user_progress"

definition get_mission_by_id :: "mission_store \<Rightarrow> int \<Rightarrow> mission option" where
  "get_mission_by_id d mission_id = missions d mission_id"

text \<open>Reading a relationship level: an unseen character has level 0.\<close>

definition relationship_level :: "user_progress \<Rightarrow> int \<Rightarrow> int" where
  "relationship_level up cid = (case relationships up cid of None \<Rightarrow> 0 | Some l \<Rightarrow> l)"

definition change_character_relationship :: "int \<Rightarrow> int \<Rightarrow> user_progress \<Rightarrow> user_progress" where
  \<comment> \<open>Modelled from the spec: \<open>UserProgress.change_character_relationship\<close> is a method of the
     models package, which is not part of the sources. Section 4.6: the record is created
     lazily with level 0 and the delta is added without clamping. The reason text is audit
     only and is left out.\<close>
  "change_character_relationship cid delta up =
     up\<lparr>relationships := (relationships up)(cid \<mapsto> relationship_level up cid + delta)\<rparr>"

definition add_experience_points :: "int \<Rightarrow> user_progress \<Rightarrow> user_progress" where
  \<comment> \<open>Modelled from the spec: \<open>UserProgress.add_experience_points\<close> is a method of the models
     package, which is not part of the sources, and the spec leaves experience out of scope;
     it is taken to accumulate into \<open>experience_points\<close> and to touch nothing else.\<close>
  "add_experience_points xp up = up\<lparr>experience_points := experience_points up + xp\<rparr>"

definition xp_rewards :: "pystr \<Rightarrow> int" where
  "xp_rewards difficulty =
     (if difficulty = lit ''easy'' then 50
      else if difficulty = lit ''medium'' then 100
      else if difficulty = lit ''hard'' then 200
      else 50)"

definition completed_entry :: "timestamp \<Rightarrow> progress_update" where
  "completed_entry now =
     \<lparr>pu_progress = Some 100, pu_status = lit ''completed'', pu_timestamp = now,
      pu_description = Some (lit ''Mission successfully completed!''), pu_reason = None\<rparr>"

definition credit_reward :: "pystr \<Rightarrow> int \<Rightarrow> (pystr \<rightharpoonup> int) \<Rightarrow> (pystr \<rightharpoonup> int)" where
  "credit_reward currency amount balances =
     (case balances currency of
        Some b \<Rightarrow> balances(currency \<mapsto> b + amount)
      | None \<Rightarrow> balances(currency \<mapsto> amount))"

text \<open>The block of \<open>complete_mission\<close> under \<open>if user_progress:\<close>.\<close>

definition reward_user :: "int \<Rightarrow> mission \<Rightarrow> user_progress \<Rightarrow> user_progress" where
  "reward_user mission_id mission up =
     (let up1 = up\<lparr>active_missions :=
                     Some (remove_if_present mission_id (list_or_empty (active_missions up))),
                   completed_missions :=
                     Some (list_or_empty (completed_missions up) @ [mission_id])\<rparr>;
          up2 = up1\<lparr>currency_balances :=
                     credit_reward (m_reward_currency mission) (m_reward_amount mission)
                       (currency_balances up1)\<rparr>;
          up3 = add_experience_points (xp_rewards (m_difficulty mission)) up2;
          up4 = if_id (m_giver_id mission) (\<lambda>giver_id. change_character_relationship giver_id 2) up3
      in if_id (m_target_id mission) (\<lambda>target_id. change_character_relationship target_id (- 3)) up4)"

definition complete_mission ::
  "timestamp \<Rightarrow> int \<Rightarrow> pystr \<Rightarrow> mission_store \<Rightarrow> bool \<times> mission_store" where
  "complete_mission now mission_id user_id d =
     (case get_mission_by_id d mission_id of
        None \<Rightarrow> (False, d)
      | Some mission \<Rightarrow>
          if m_status mission \<noteq> lit ''active'' then (False, d)
          else
            let mission' = mission\<lparr>m_status := lit ''completed'',
                                   m_completed_at := Some now,
                                   m_progress := 100,
                                   m_progress_updates :=
                                     Some (list_or_empty (m_progress_updates mission)
                                           @ [completed_entry now])\<rparr>;
                d1 = d\<lparr>missions := (missions d)(mission_id \<mapsto> mission')\<rparr>
            in (case user_progresses d1 user_id of
                  None \<Rightarrow> (True, d1)
                | Some up \<Rightarrow>
                    (True, d1\<lparr>user_progresses :=
                                (user_progresses d1)(user_id \<mapsto> reward_user mission_id mission' up)\<rparr>)))"

definition failed_entry :: "timestamp \<Rightarrow> pystr option \<Rightarrow> progress_update" where
  "failed_entry now reason =
     \<lparr>pu_progress = None, pu_status = lit ''failed'', pu_timestamp = now,
      pu_description = None,
      pu_reason = (case reason of None \<Rightarrow> None
                   | Some r \<Rightarrow> if r = [] then None else Some r)\<rparr>"

text \<open>The block of \<open>fail_mission\<close> under \<open>if user_progress:\<close>.\<close>

definition penalise_user :: "int \<Rightarrow> mission \<Rightarrow> user_progress \<Rightarrow> user_progress" where
  "penalise_user mission_id mission up =
     (let up1 = up\<lparr>active_missions :=
                     Some (remove_if_present mission_id (list_or_empty (active_missions up))),
                   failed_missions :=
                     Some (list_or_empty (failed_missions up) @ [mission_id])\<rparr>
      in if_id (m_giver_id mission) (\<lambda>giver_id. change_character_relationship giver_id (- 1)) up1)"

definition fail_mission ::
  "timestamp \<Rightarrow> int \<Rightarrow> pystr \<Rightarrow> pystr option \<Rightarrow> mission_store \<Rightarrow> bool \<times> mission_store" where
  "fail_mission now mission_id user_id reason d =
     (case get_mission_by_id d mission_id of
        None \<Rightarrow> (False, d)
      | Some mission \<Rightarrow>
          if m_status mission \<noteq> lit ''active'' then (False, d)
          else
            let mission' = mission\<lparr>m_status := lit ''failed'',
                                   m_progress_updates :=
                                     Some (list_or_empty (m_progress_updates mission)
                                           @ [failed_entry now reason])\<rparr>;
                d1 = d\<lparr>missions := (missions d)(mission_id \<mapsto> mission')\<rparr>
            in (case user_progresses d1 user_id of
                  None \<Rightarrow> (True, d1)
                | Some up \<Rightarrow>
                    (True, d1\<lparr>user_progresses :=
                                (user_progresses d1)(user_id \<mapsto> penalise_user mission_id mission' up)\<rparr>)))"

section \<open>Story nodes and the session state (state_manager.py)\<close>

datatype py_error =
  ValueError | TypeError | AttributeError | KeyError | RuntimeError | GenerationError

text \<open>An entry of the list under \<open>encountered_characters\<close> in a node's metadata: a dictionary
  read with \<open>get\<close>. The id is read without a default, so a missing id and an id that holds
  \<open>None\<close> are the same \<open>None\<close>.\<close>

record branch_char =
  bc_id :: "int option"
  bc_name :: "pystr slot"
  bc_backstory :: "pystr slot"
  bc_plot_lines :: "pystr list slot"

text \<open>The dictionary under \<open>mission_info\<close>, read with \<open>get\<close>.\<close>

record mission_info =
  mi_title :: "pystr slot"
  mi_objective :: "pystr slot"
  mi_status :: "pystr slot"
  mi_progress :: "int slot"

text \<open>The keys of \<open>branch_metadata\<close> that the session state reads. The list of encountered
  characters is used only when it is a non-empty list, so a missing key and a key that holds
  \<open>None\<close> are the same \<open>None\<close> here.\<close>

record branch_metadata =
  bm_encountered_characters :: "branch_char list option"
  bm_mission_info :: "mission_info slot"

text \<open>A \<open>StoryNode\<close> row. The table is the list of rows in storage order.\<close>

record story_node =
  n_id :: int
  n_story_id :: int
  n_parent_node_id :: "int option"
  n_narrative_text :: "pystr option"
  n_created_at :: timestamp
  n_branch_metadata :: "branch_metadata option"

text \<open>A \<open>StoryGeneration\<close> row.\<close>

record story =
  s_id :: int
  s_primary_conflict :: pystr
  s_setting :: pystr

record plot_arc =
  pa_story_id :: int
  pa_status :: pystr
  pa_key_nodes :: "int list option"

record history_entry =
  he_id :: int
  he_narrative_text :: "pystr option"
  he_timestamp :: timestamp

text \<open>The fields of a \<open>GameState\<close> object; \<open>gs_node_count\<close> is its \<open>_node_count\<close>.\<close>

record game_state =
  user_progress :: user_progress
  current_story :: "story option"
  current_node :: "story_node option"
  gs_node_count :: int
  story_history_buffer :: "history_entry list"
  max_history_nodes :: nat

text \<open>\<open>StoryNode.query.get(node_id)\<close> and \<open>StoryGeneration.query.get(story_id)\<close>.\<close>

definition get_node :: "story_node list \<Rightarrow> int \<Rightarrow> story_node option" where
  "get_node nodes node_id = find (\<lambda>n. n_id n = node_id) nodes"

definition get_story :: "story list \<Rightarrow> int \<Rightarrow> story option" where
  "get_story stories story_id = find (\<lambda>st. s_id st = story_id) stories"

subsection \<open>Rolling history buffer\<close>

definition history_entry_of :: "timestamp \<Rightarrow> story_node \<Rightarrow> history_entry" where
  "history_entry_of now node =
     \<lparr>he_id = n_id node, he_narrative_text = n_narrative_text node, he_timestamp = now\<rparr>"

text \<open>\<open>_update_story_history\<close>. Its caller passes a node object, which is never false, so
  the guard \<open>if not node\<close> has no branch here. \<open>pop(0)\<close> runs on a list that has just
  received an entry.\<close>

definition update_story_history :: "timestamp \<Rightarrow> story_node \<Rightarrow> game_state \<Rightarrow> game_state" where
  "update_story_history now node s =
     (let buf = story_history_buffer s @ [history_entry_of now node]
      in s\<lparr>story_history_buffer :=
             (if length buf > max_history_nodes s then tl buf else buf)\<rparr>)"

subsection \<open>Transition\<close>

definition str_id :: "int option \<Rightarrow> pystr" where
  "str_id x = (case x of None \<Rightarrow> lit ''None'' | Some i \<Rightarrow> str_int i)"

text \<open>The dictionary stored for a new character: \<open>char.get("name", "Unknown")\<close>,
  \<open>char.get("backstory", "")\<close>, \<open>char.get("plot_lines", [])\<close>.\<close>

definition snapshot_of :: "branch_char \<Rightarrow> char_snapshot" where
  "snapshot_of c =
     \<lparr>cs_name = dict_get (bc_name c) (lit ''Unknown''),
      cs_backstory = dict_get (bc_backstory c) [],
      cs_plot_lines = dict_get (bc_plot_lines c) []\<rparr>"

text \<open>One round of the loop \<open>for char in new_chars\<close>.\<close>

definition merge_char ::
  "(pystr \<rightharpoonup> char_snapshot) \<Rightarrow> branch_char \<Rightarrow> (pystr \<rightharpoonup> char_snapshot)" where
  "merge_char m c =
     (let cid = str_id (bc_id c)
      in case m cid of Some _ \<Rightarrow> m | None \<Rightarrow> m(cid \<mapsto> snapshot_of c))"

definition merge_encountered :: "story_node \<Rightarrow> user_progress \<Rightarrow> user_progress" where
  "merge_encountered node up =
     (case n_branch_metadata node of
        None \<Rightarrow> up
      | Some md \<Rightarrow>
          (let new_chars = list_or_empty (bm_encountered_characters md)
           in if new_chars = [] then up
              else up\<lparr>encountered_characters :=
                        Some (foldl merge_char (dict_or_empty (encountered_characters up))
                                new_chars)\<rparr>))"

text \<open>The block of \<open>transition_to_node\<close> under \<open>if update_progress:\<close>.\<close>

definition record_visit :: "timestamp \<Rightarrow> int \<Rightarrow> story_node \<Rightarrow> user_progress \<Rightarrow> user_progress" where
  "record_visit now node_id new_node up =
     (let up1 = up\<lparr>current_node_id := Some node_id, last_active := Some now\<rparr>;
          history = list_or_empty (choice_history up1);
          up2 = up1\<lparr>choice_history :=
                      Some (if node_id \<in> set history then history else history @ [node_id])\<rparr>
      in merge_encountered new_node up2)"

text \<open>\<open>transition_to_node\<close>: the exception is the left summand, and the state that the
  caller still holds comes with it. The handler only logs and re-raises. The two readings of
  the clock in one call (history entry, \<open>last_active\<close>) are the one instant \<open>now\<close>.\<close>

definition transition_to_node ::
  "story_node list \<Rightarrow> timestamp \<Rightarrow> int \<Rightarrow> bool \<Rightarrow> game_state \<Rightarrow> (py_error + bool) \<times> game_state" where
  "transition_to_node nodes now node_id update_progress s =
     (case get_node nodes node_id of
        None \<Rightarrow> (Inl ValueError, s)
      | Some new_node \<Rightarrow>
          (let s1 = (case current_node s of
                       None \<Rightarrow> s
                     | Some cur \<Rightarrow> update_story_history now cur s);
               s2 = s1\<lparr>current_node := Some new_node\<rparr>;
               s3 = (if update_progress
                     then s2\<lparr>user_progress := record_visit now node_id new_node (user_progress s2)\<rparr>
                     else s2)
           in (Inr True, s3)))"

text \<open>A run of transitions, each against the node table of its moment. A failed call
  raises and leaves the state as it is; the run goes on with the next call.\<close>

type_synonym transition_call = "story_node list \<times> timestamp \<times> int \<times> bool"

fun run_transitions :: "transition_call list \<Rightarrow> game_state \<Rightarrow> game_state" where
  "run_transitions [] s = s"
| "run_transitions ((nodes, now, node_id, upd) # calls) s =
     run_transitions calls (snd (transition_to_node nodes now node_id upd s))"

definition succeeds :: "transition_call \<Rightarrow> game_state \<Rightarrow> bool" where
  "succeeds call s =
     (case call of (nodes, now, node_id, upd) \<Rightarrow>
        fst (transition_to_node nodes now node_id upd s) = Inr True)"

fun all_succeed :: "transition_call list \<Rightarrow> game_state \<Rightarrow> bool" where
  "all_succeed [] s = True"
| "all_succeed ((nodes, now, node_id, upd) # calls) s =
     (succeeds (nodes, now, node_id, upd) s
      \<and> all_succeed calls (snd (transition_to_node nodes now node_id upd s)))"

text \<open>The nodes a run leaves, in the order it leaves them: at each successful call the
  node that was current before it, stamped with the time of the call.\<close>

fun departed :: "transition_call list \<Rightarrow> game_state \<Rightarrow> history_entry list" where
  "departed [] s = []"
| "departed ((nodes, now, node_id, upd) # calls) s =
     (if succeeds (nodes, now, node_id, upd) s
      then (case current_node s of None \<Rightarrow> [] | Some cur \<Rightarrow> [history_entry_of now cur])
      else [])
     @ departed calls (snd (transition_to_node nodes now node_id upd s))"

text \<open>The last \<open>k\<close> elements of a list.\<close>

definition last_n :: "nat \<Rightarrow> 'a list \<Rightarrow> 'a list" where
  "last_n k xs = drop (length xs - k) xs"

text \<open>The encountered-character map as a dictionary, and the characters that a node's
  metadata lists.\<close>

definition known_characters :: "user_progress \<Rightarrow> (pystr \<rightharpoonup> char_snapshot)" where
  "known_characters up = dict_or_empty (encountered_characters up)"

definition listed_characters :: "story_node \<Rightarrow> branch_char list" where
  "listed_characters n =
     (case n_branch_metadata n of None \<Rightarrow> []
      | Some md \<Rightarrow> list_or_empty (bm_encountered_characters md))"

subsection \<open>Node resolver\<close>

text \<open>\<open>story_id or (self.current_story.id if self.current_story else None)\<close>.\<close>

definition target_story_id :: "int option \<Rightarrow> game_state \<Rightarrow> int option" where
  "target_story_id story_id s =
     (if truthy_id story_id then story_id else map_option s_id (current_story s))"

text \<open>Priority 1: the node under \<open>current_node_id\<close>, when the id is set, the node exists
  and it belongs to the target story; every other case falls through.\<close>

definition pointer_node :: "story_node list \<Rightarrow> int \<Rightarrow> game_state \<Rightarrow> story_node option" where
  "pointer_node nodes t s =
     (case current_node_id (user_progress s) of
        None \<Rightarrow> None
      | Some i \<Rightarrow>
          if i = 0 then None
          else (case get_node nodes i of
                  None \<Rightarrow> None
                | Some node \<Rightarrow> if n_story_id node = t then Some node else None))"

text \<open>\<open>order_by(created_at.desc()).first()\<close>: a row with the greatest creation time. Among
  rows created at the same time the database is free to return any; the table order decides
  here.\<close>

fun latest_created :: "story_node list \<Rightarrow> story_node option" where
  "latest_created [] = None"
| "latest_created (n # ns) =
     (case latest_created ns of
        None \<Rightarrow> Some n
      | Some m \<Rightarrow> if n_created_at n < n_created_at m then Some m else Some n)"

text \<open>Priority 2 and priority 3.\<close>

definition latest_node :: "story_node list \<Rightarrow> int \<Rightarrow> story_node option" where
  "latest_node nodes t = latest_created (filter (\<lambda>n. n_story_id n = t) nodes)"

definition root_node :: "story_node list \<Rightarrow> int \<Rightarrow> story_node option" where
  "root_node nodes t = find (\<lambda>n. n_story_id n = t \<and> n_parent_node_id n = None) nodes"

text \<open>The body of the \<open>try\<close> block of \<open>resolve_current_node\<close>.\<close>

definition resolve_current_node_body ::
  "story list \<Rightarrow> story_node list \<Rightarrow> int option \<Rightarrow> game_state \<Rightarrow> py_error + story_node" where
  "resolve_current_node_body stories nodes story_id s =
     (case target_story_id story_id s of
        None \<Rightarrow> Inl ValueError
      | Some t \<Rightarrow>
          if t = 0 then Inl ValueError
          else (case get_story stories t of
                  None \<Rightarrow> Inl ValueError
                | Some story \<Rightarrow>
                    (case pointer_node nodes t s of
                       Some node \<Rightarrow> Inr node
                     | None \<Rightarrow>
                         (case latest_node nodes t of
                            Some node \<Rightarrow> Inr node
                          | None \<Rightarrow>
                              (case root_node nodes t of
                                 Some node \<Rightarrow> Inr node
                               | None \<Rightarrow> Inl ValueError)))))"

text \<open>The handler turns every exception into the result \<open>None\<close>.\<close>

definition resolve_current_node ::
  "story list \<Rightarrow> story_node list \<Rightarrow> int option \<Rightarrow> game_state \<Rightarrow> story_node option" where
  "resolve_current_node stories nodes story_id s =
     (case resolve_current_node_body stories nodes story_id s of
        Inl e \<Rightarrow> None
      | Inr node \<Rightarrow> Some node)"

subsection \<open>Context assembly\<close>

text \<open>The ids under \<open>key_nodes\<close> of the active plot arcs of a story.\<close>

definition key_node_ids_of :: "plot_arc list \<Rightarrow> int \<Rightarrow> int list" where
  "key_node_ids_of arcs story_id =
     concat (map (\<lambda>arc. list_or_empty (pa_key_nodes arc))
               (filter (\<lambda>arc. pa_story_id arc = story_id \<and> pa_status arc = lit ''active'') arcs))"

text \<open>The loop \<open>while parent_id and ancestor_count < 5\<close>.\<close>

function collect_ancestors ::
  "story_node list \<Rightarrow> int option \<Rightarrow> nat \<Rightarrow> story_node list \<Rightarrow> story_node list" where
  "collect_ancestors nodes parent_id ancestor_count ancestor_nodes =
     (case parent_id of
        None \<Rightarrow> ancestor_nodes
      | Some pid \<Rightarrow>
          if pid \<noteq> 0 \<and> ancestor_count < 5
          then (case get_node nodes pid of
                  Some parent \<Rightarrow>
                    collect_ancestors nodes (n_parent_node_id parent) (Suc ancestor_count)
                      (ancestor_nodes @ [parent])
                | None \<Rightarrow> ancestor_nodes)
          else ancestor_nodes)"
  by pat_completeness auto
termination
  by (relation "measure (\<lambda>(nodes, parent_id, ancestor_count, ancestor_nodes). 5 - ancestor_count)")
     auto

declare collect_ancestors.simps [simp del]

text \<open>\<open>text[:limit]\<close>, with \<open>...\<close> added when the text is longer. A node without narrative
  text makes the slice raise.\<close>

definition truncated :: "nat \<Rightarrow> pystr option \<Rightarrow> py_error + pystr" where
  "truncated limit text =
     (case text of
        None \<Rightarrow> Inl TypeError
      | Some t \<Rightarrow> Inr (take limit t @ (if length t > limit then lit ''...'' else [])))"

text \<open>The loops \<open>for i, node in enumerate(nodes, 1)\<close>: one line per node.\<close>

fun numbered_lines :: "pystr \<Rightarrow> nat \<Rightarrow> nat \<Rightarrow> story_node list \<Rightarrow> py_error + pystr list" where
  "numbered_lines label limit i [] = Inr []"
| "numbered_lines label limit i (node # rest) =
     (case truncated limit (n_narrative_text node) of
        Inl e \<Rightarrow> Inl e
      | Inr text \<Rightarrow>
          (case numbered_lines label limit (Suc i) rest of
             Inl e \<Rightarrow> Inl e
           | Inr ls \<Rightarrow> Inr ((label @ lit '' '' @ str_nat i @ lit '': '' @ text) # ls)))"

definition key_section :: "story_node list \<Rightarrow> int list \<Rightarrow> py_error + pystr list" where
  "key_section nodes key_node_ids =
     (if key_node_ids = [] then Inr []
      else (let key_nodes = filter (\<lambda>n. n_id n \<in> set key_node_ids) nodes
            in if key_nodes = [] then Inr []
               else (case numbered_lines (lit ''MOMENT'') 300 1 key_nodes of
                       Inl e \<Rightarrow> Inl e
                     | Inr ls \<Rightarrow> Inr (lit ''KEY PLOT POINTS:'' # ls @ [[]]))))"

definition ancestor_section :: "story_node list \<Rightarrow> py_error + pystr list" where
  "ancestor_section ancestor_nodes =
     (if ancestor_nodes = [] then Inr []
      else (case numbered_lines (lit ''SCENE'') 200 1 ancestor_nodes of
              Inl e \<Rightarrow> Inl e
            | Inr ls \<Rightarrow> Inr (lit ''RECENT STORY HISTORY:'' # ls @ [[]])))"

definition get_or :: "'a option \<Rightarrow> 'a \<Rightarrow> 'a" where
  "get_or x d = (case x of None \<Rightarrow> d | Some v \<Rightarrow> v)"

text \<open>The block under \<open>if current_node.branch_metadata and "mission_info" in ...\<close>. A
  \<open>mission_info\<close> key that holds \<open>None\<close> makes the first \<open>get\<close> raise.\<close>

definition mission_section :: "story_node \<Rightarrow> py_error + pystr list" where
  "mission_section current =
     (case n_branch_metadata current of
        None \<Rightarrow> Inr []
      | Some md \<Rightarrow>
          (case bm_mission_info md of
             Absent \<Rightarrow> Inr []
           | Null \<Rightarrow> Inl AttributeError
           | Present mission_info \<Rightarrow>
               Inr [lit ''CURRENT MISSION:'',
                    lit ''Title: '' @ format_text (dict_get (mi_title mission_info) (lit ''Unknown'')),
                    lit ''Objective: ''
                      @ format_text (dict_get (mi_objective mission_info) (lit ''Unknown'')),
                    lit ''Status: '' @ format_text (dict_get (mi_status mission_info) (lit ''Unknown'')),
                    lit ''Progress: '' @ format_int (dict_get (mi_progress mission_info) 0) @ lit ''%'',
                    []]))"

text \<open>\<open>"\n".join(parts)\<close>; a line feed is code point 10.\<close>

fun join_lines :: "pystr list \<Rightarrow> pystr" where
  "join_lines [] = []"
| "join_lines [l] = l"
| "join_lines (l # m # ls) = l @ [10] @ join_lines (m # ls)"

text \<open>The body of the \<open>try\<close> block of \<open>get_enhanced_context\<close>; \<open>max_tokens\<close> is never
  read. A node id that resolves to nothing returns the empty text at once.\<close>

definition get_enhanced_context_body ::
  "plot_arc list \<Rightarrow> story_node list \<Rightarrow> int \<Rightarrow> py_error + pystr" where
  "get_enhanced_context_body arcs nodes node_id =
     (case get_node nodes node_id of
        None \<Rightarrow> Inr []
      | Some current \<Rightarrow>
          (let key_node_ids = key_node_ids_of arcs (n_story_id current);
               ancestor_nodes = rev (collect_ancestors nodes (n_parent_node_id current) 0 [])
           in case key_section nodes key_node_ids of
                Inl e \<Rightarrow> Inl e
              | Inr key_part \<Rightarrow>
                  (case ancestor_section ancestor_nodes of
                     Inl e \<Rightarrow> Inl e
                   | Inr ancestor_part \<Rightarrow>
                       (case mission_section current of
                          Inl e \<Rightarrow> Inl e
                        | Inr mission_part \<Rightarrow>
                            Inr (join_lines (key_part @ ancestor_part @ mission_part))))))"

definition get_enhanced_context :: "plot_arc list \<Rightarrow> story_node list \<Rightarrow> int \<Rightarrow> pystr" where
  "get_enhanced_context arcs nodes node_id =
     (case get_enhanced_context_body arcs nodes node_id of
        Inl e \<Rightarrow> []
      | Inr text \<Rightarrow> text)"

text \<open>The spec's words for the same text. Ancestors: follow parent pointers upward, stop at
  the root or after the given number of hops. Each text is cut to its cap. The mission
  snapshot (title, objective, status, progress) is a final section if present. The sections
  come in the order key plot points, ancestors, mission snapshot, a section that resolved to
  nothing is left out, and the lines are put together with a line feed between each two.\<close>

fun spec_ancestors :: "nat \<Rightarrow> story_node list \<Rightarrow> int option \<Rightarrow> story_node list" where
  "spec_ancestors 0 nodes p = []"
| "spec_ancestors (Suc hops) nodes p =
     (case p of
        None \<Rightarrow> []
      | Some pid \<Rightarrow>
          if pid = 0 then []
          else (case get_node nodes pid of
                  None \<Rightarrow> []
                | Some parent \<Rightarrow> parent # spec_ancestors hops nodes (n_parent_node_id parent)))"

definition spec_clip :: "nat \<Rightarrow> pystr \<Rightarrow> pystr" where
  "spec_clip cap t = take cap t @ (if cap < length t then lit ''...'' else [])"

definition spec_line :: "pystr \<Rightarrow> nat \<Rightarrow> nat \<times> story_node \<Rightarrow> pystr" where
  "spec_line label cap p =
     label @ lit '' '' @ str_nat (fst p) @ lit '': ''
     @ spec_clip cap (get_or (n_narrative_text (snd p)) [])"

definition spec_section :: "pystr \<Rightarrow> pystr \<Rightarrow> nat \<Rightarrow> story_node list \<Rightarrow> pystr list" where
  "spec_section header label cap ns =
     (if ns = [] then [] else header # map (spec_line label cap) (enumerate 1 ns) @ [[]])"

definition spec_key_nodes :: "plot_arc list \<Rightarrow> story_node list \<Rightarrow> story_node \<Rightarrow> story_node list" where
  "spec_key_nodes arcs nodes current =
     filter (\<lambda>n. n_id n \<in> set (key_node_ids_of arcs (n_story_id current))) nodes"

definition spec_snapshot :: "story_node \<Rightarrow> mission_info option" where
  "spec_snapshot current =
     (case n_branch_metadata current of
        None \<Rightarrow> None
      | Some md \<Rightarrow> (case bm_mission_info md of Present mi \<Rightarrow> Some mi | _ \<Rightarrow> None))"

definition spec_shown :: "('a \<Rightarrow> pystr) \<Rightarrow> pystr \<Rightarrow> 'a slot \<Rightarrow> pystr" where
  "spec_shown render fallback f =
     (case f of Absent \<Rightarrow> fallback | Null \<Rightarrow> lit ''None'' | Present v \<Rightarrow> render v)"

definition spec_mission_section :: "story_node \<Rightarrow> pystr list" where
  "spec_mission_section current =
     (case spec_snapshot current of
        None \<Rightarrow> []
      | Some mi \<Rightarrow>
          lit ''CURRENT MISSION:''
          # map (\<lambda>(label, shown). label @ lit '': '' @ shown)
              [(lit ''Title'', spec_shown (\<lambda>t. t) (lit ''Unknown'') (mi_title mi)),
               (lit ''Objective'', spec_shown (\<lambda>t. t) (lit ''Unknown'') (mi_objective mi)),
               (lit ''Status'', spec_shown (\<lambda>t. t) (lit ''Unknown'') (mi_status mi)),
               (lit ''Progress'', spec_shown str_int (lit ''0'') (mi_progress mi) @ lit ''%'')]
          @ [[]])"

text \<open>Lines with a line feed between each two: put a line feed before every line and take
  the first one away.\<close>

definition spec_join :: "pystr list \<Rightarrow> pystr" where
  "spec_join ls = tl (concat (map (\<lambda>l. 10 # l) ls))"

definition spec_context :: "plot_arc list \<Rightarrow> story_node list \<Rightarrow> story_node \<Rightarrow> pystr" where
  "spec_context arcs nodes current =
     spec_join
       (spec_section (lit ''KEY PLOT POINTS:'') (lit ''MOMENT'') 300 (spec_key_nodes arcs nodes current)
        @ spec_section (lit ''RECENT STORY HISTORY:'') (lit ''SCENE'') 200
            (rev (spec_ancestors 5 nodes (n_parent_node_id current)))
        @ spec_mission_section current)"

text \<open>The mission snapshot is there and holds \<open>None\<close>.\<close>

definition mission_info_null :: "story_node \<Rightarrow> bool" where
  "mission_info_null current =
     (case n_branch_metadata current of
        None \<Rightarrow> False
      | Some md \<Rightarrow> (case bm_mission_info md of Null \<Rightarrow> True | _ \<Rightarrow> False))"

section \<open>Choice processing (game_engine.py)\<close>

text \<open>
  The part of the world that \<open>make_choice\<close> moves: the \<open>GameState\<close> object, whose
  \<open>user_progress\<close> is the session's working copy of the user's row; the node table as the
  session sees it, with rows that are flushed but not committed; and the committed node table
  and user row. \<open>commit\<close> makes the session's view durable, \<open>rollback\<close> discards what is
  not committed. Plain attributes of the \<open>GameState\<close> object (\<open>_node_count\<close>, the current
  node, the history buffer) are outside the session and no rollback touches them. The
  savepoint opened by \<open>begin_nested\<close> shows only in what the commit inside
  \<open>increment_node_count\<close> does. Mission rows and relationship rows are
  left out: no statement of \<open>make_choice\<close> on them reads or writes the node count or the
  node table. Of the steps between the generation call and the commit, the new node and the
  transition are modelled; the lookup of the characters that were passed in and the
  broadcast to the listeners are not. The loop over the active missions enters through its
  result \<open>mission_updates\<close>, the missions whose progress update was accepted: the
  \<open>Mission\<close> objects in that list go into the response, and \<open>json.dumps\<close> of the response,
  which runs after the commit for the log, raises \<open>TypeError\<close> on them.
\<close>

record world =
  state :: game_state
  session_nodes :: "story_node list"
  stored_nodes :: "story_node list"
  stored_progress :: user_progress
  story_rows :: "story list"

definition commit :: "world \<Rightarrow> world" where
  "commit w = w\<lparr>stored_nodes := session_nodes w, stored_progress := user_progress (state w)\<rparr>"

definition rollback :: "world \<Rightarrow> world" where
  "rollback w =
     w\<lparr>session_nodes := stored_nodes w,
       state := (state w)\<lparr>user_progress := stored_progress w\<rparr>\<rparr>"

text \<open>\<open>reload_state\<close>: refresh the user row, load story and node when their ids are set,
  and restore \<open>_node_count\<close> from the row.\<close>

definition reload_state :: "world \<Rightarrow> world" where
  "reload_state w =
     (let up = stored_progress w;
          s1 = (state w)\<lparr>user_progress := up\<rparr>;
          s2 = if_id (current_story_id up)
                 (\<lambda>i s. s\<lparr>current_story := get_story (story_rows w) i\<rparr>) s1;
          s3 = if_id (current_node_id up)
                 (\<lambda>i s. s\<lparr>current_node := get_node (session_nodes w) i\<rparr>) s2
      in w\<lparr>state := s3\<lparr>gs_node_count := node_count up\<rparr>\<rparr>)"

text \<open>
  What the \<open>commit\<close> inside \<open>increment_node_count\<close> does to the session, which by then
  runs inside the savepoint of \<open>begin_nested\<close>: it makes the pending changes durable; or,
  with a session that takes a commit inside a savepoint as the release of that savepoint, it
  leaves them pending in the enclosing transaction; or it raises, and the handler rolls the
  session back.
\<close>

datatype commit_outcome = Committed | Released | Failed

text \<open>\<open>increment_node_count\<close>: the incremented count is returned whatever the commit did.\<close>

definition increment_node_count :: "commit_outcome \<Rightarrow> world \<Rightarrow> int \<times> world" where
  "increment_node_count outcome w =
     (let n = gs_node_count (state w) + 1;
          s1 = (state w)\<lparr>gs_node_count := n\<rparr>;
          w1 = w\<lparr>state := s1\<lparr>user_progress := (user_progress s1)\<lparr>node_count := n\<rparr>\<rparr>\<rparr>
      in (n, case outcome of
               Committed \<Rightarrow> commit w1
             | Released \<Rightarrow> w1
             | Failed \<Rightarrow> rollback w1))"

text \<open>What \<open>generate_continuation\<close> hands back, as far as the node needs it.\<close>

record segment =
  seg_narrative_text :: pystr
  seg_mission_update :: "pystr option"

text \<open>The id that the flush assigns to a new row.\<close>

definition fresh_id :: "story_node list \<Rightarrow> int" where
  "fresh_id nodes = foldr (\<lambda>n m. max (n_id n) m) nodes 0 + 1"

text \<open>
  The \<open>try\<close> block of \<open>make_choice\<close> after the reload. \<open>generated\<close> is the outcome of the
  call to \<open>generate_continuation\<close>: a segment, or the exception of a timeout or a provider
  error. \<open>metadata\<close> is the metadata that the call builds for the new node from the story,
  the active mission and the characters it was given. \<open>mission_updates\<close> holds the ids of
  the missions that the loop after the transition puts into the response.
\<close>

definition make_choice_body ::
  "commit_outcome \<Rightarrow> timestamp \<Rightarrow> branch_metadata \<Rightarrow> int list \<Rightarrow> py_error + segment
     \<Rightarrow> world \<Rightarrow> (py_error + story_node) \<times> world" where
  "make_choice_body outcome now metadata mission_updates generated w =
     (case current_story_id (user_progress (state w)) of
        None \<Rightarrow> (Inl ValueError, w)
      | Some sid \<Rightarrow>
          if sid = 0 then (Inl ValueError, w)
          else
           (case get_story (story_rows w) sid of
              None \<Rightarrow> (Inl ValueError, w)
            | Some story \<Rightarrow>
               (case resolve_current_node (story_rows w) (session_nodes w) (Some (s_id story)) (state w) of
                  None \<Rightarrow> (Inl ValueError, w)
                | Some current \<Rightarrow>
                   (case n_branch_metadata current of
                      None \<Rightarrow> (Inl AttributeError, w)
                    | Some md \<Rightarrow>
                       (let w2 = snd (increment_node_count outcome w)
                        in case generated of
                             Inl e \<Rightarrow> (Inl e, w2)
                           | Inr next_segment \<Rightarrow>
                              (let next_node =
                                     \<lparr>n_id = fresh_id (session_nodes w2),
                                      n_story_id = s_id story,
                                      n_parent_node_id = Some (n_id current),
                                      n_narrative_text = Some (seg_narrative_text next_segment),
                                      n_created_at = now,
                                      n_branch_metadata = Some metadata\<rparr>;
                                   w3 = w2\<lparr>session_nodes := session_nodes w2 @ [next_node]\<rparr>
                               in case transition_to_node (session_nodes w3) now (n_id next_node)
                                         True (state w3) of
                                    (Inl e, s') \<Rightarrow> (Inl e, w3\<lparr>state := s'\<rparr>)
                                  | (Inr ok, s') \<Rightarrow>
                                      (if mission_updates = [] then Inr next_node
                                       else Inl TypeError,
                                       commit (w3\<lparr>state := s'\<rparr>))))))))"

text \<open>\<open>make_choice\<close>: the handler rolls the session back and raises \<open>RuntimeError\<close>.\<close>

definition make_choice ::
  "commit_outcome \<Rightarrow> timestamp \<Rightarrow> branch_metadata \<Rightarrow> int list \<Rightarrow> py_error + segment
     \<Rightarrow> world \<Rightarrow> (py_error + story_node) \<times> world" where
  "make_choice outcome now metadata mission_updates generated w =
     (case make_choice_body outcome now metadata mission_updates generated (reload_state w) of
        (Inl e, w') \<Rightarrow> (Inl RuntimeError, rollback w')
      | (Inr node, w') \<Rightarrow> (Inr node, w'))"

text \<open>The call gets as far as \<open>generate_continuation\<close>: the story and the current node
  resolve and the current node carries metadata.\<close>

definition reaches_generation :: "world \<Rightarrow> bool" where
  "reaches_generation w =
     (let w1 = reload_state w
      in case current_story_id (user_progress (state w1)) of
           None \<Rightarrow> False
         | Some sid \<Rightarrow>
             sid \<noteq> 0 \<and>
             (case get_story (story_rows w1) sid of
                None \<Rightarrow> False
              | Some story \<Rightarrow>
                  (case resolve_current_node (story_rows w1) (session_nodes w1) (Some (s_id story))
                          (state w1) of
                     None \<Rightarrow> False
                   | Some current \<Rightarrow> n_branch_metadata current \<noteq> None)))"

section \<open>Mission extraction (mission_generator.py)\<close>

text \<open>
  \<open>extract_mission_details\<close> reads the story text with regular expressions. The regular
  expression engine, the built-in \<open>int\<close>, \<open>str.lower\<close>, \<open>str.strip\<close> and the query on the
  character table are library code; they enter as the fields of a \<open>runtime\<close>, and every
  result below holds for every runtime. A match is the list of its groups (group 1 first);
  a group that took no part in the match is \<open>None\<close>.

  The patterns, in the order of the source (\<open>C\<close> stands for the class of the five currency
  symbols, \<open>N\<close> for \<^verbatim>\<open>(\d{1,3}(?:,\d{3})*|\d+)\<close>):
  \<^item> \<open>DialogueOf name\<close>: the escaped name, then \<^verbatim>\<open>[^"]*("[^"]*")\<close>;
  \<^item> \<open>Villain1\<close>, \<open>Villain2\<close>: the two \<open>villain_patterns\<close>;
  \<^item> \<open>Objective1\<close> .. \<open>Objective5\<close>: the five \<open>objective_patterns\<close>;
  \<^item> \<open>Deadline1\<close> .. \<open>Deadline4\<close>: the four \<open>deadline_patterns\<close>;
  \<^item> \<open>Reward1\<close> .. \<open>Reward4\<close>: \<^verbatim>\<open>reward of N\s*(C)\<close>, \<^verbatim>\<open>N\s*(C) reward\<close>,
    \<^verbatim>\<open>pay you N\s*(C)\<close>, \<^verbatim>\<open>payment of N\s*(C)\<close>;
  \<^item> \<open>GeneralGiver\<close>, \<open>GeneralTarget\<close>, \<open>GeneralObjective\<close>, \<open>GeneralReward\<close>: the four
    patterns of the fallback block, the last being \<^verbatim>\<open>reward\?\s*N\s*(C)\<close>.
\<close>

datatype pattern =
    DialogueOf pystr
  | Villain1 | Villain2
  | Objective1 | Objective2 | Objective3 | Objective4 | Objective5
  | Deadline1 | Deadline2 | Deadline3 | Deadline4
  | Reward1 | Reward2 | Reward3 | Reward4
  | GeneralGiver | GeneralTarget | GeneralObjective | GeneralReward

type_synonym match = "pystr option list"

record runtime =
  rt_search :: "pattern \<Rightarrow> pystr \<Rightarrow> match option"
  rt_finditer :: "pattern \<Rightarrow> pystr \<Rightarrow> match list"
  rt_int :: "pystr \<Rightarrow> int option"
  rt_lower :: "pystr \<Rightarrow> pystr"
  rt_strip :: "pystr \<Rightarrow> pystr"
  rt_character_exists :: "int \<Rightarrow> bool"

text \<open>\<open>match.group(k)\<close>.\<close>

definition group :: "nat \<Rightarrow> match \<Rightarrow> pystr option" where
  "group k m = (if 0 < k \<and> k \<le> length m then m ! (k - 1) else None)"

text \<open>An entry of the \<open>characters\<close> argument: a dictionary read with \<open>get\<close>.\<close>

record character =
  ch_id :: "int option"
  ch_character_name :: "pystr option"
  ch_name :: "pystr option"
  ch_character_role :: "pystr option"

record mission_details =
  md_giver :: "pystr option"
  md_giver_id :: "int option"
  md_target :: "pystr option"
  md_target_id :: "int option"
  md_objective :: pystr
  md_deadline :: pystr
  md_reward_amount :: int
  md_reward_currency :: "pystr option"
  md_difficulty :: pystr

text \<open>The five currency symbols, by code point: gem stone, dollar, pound, euro and yen
  banknotes.\<close>

definition BASE_REWARDS :: "pystr \<rightharpoonup> int" where
  "BASE_REWARDS =
     [[128142] \<mapsto> 1, [128181] \<mapsto> 1500, [128183] \<mapsto> 1400, [128182] \<mapsto> 1450,
      [128180] \<mapsto> 150000]"

definition initial_details :: mission_details where
  "initial_details =
     \<lparr>md_giver = None, md_giver_id = None, md_target = None, md_target_id = None,
      md_objective = lit ''Objective not clearly specified.'',
      md_deadline = lit ''As soon as possible'',
      md_reward_amount = 1500,
      md_reward_currency = Some [],
      md_difficulty = lit ''medium''\<rparr>"

text \<open>Truth of an optional text, \<open>a or b\<close>, \<open>x in y\<close> on texts, \<open>strip('"')\<close> (code point
  34), \<open>replace(",", "")\<close> (code point 44) and \<open>replace("'s", "")\<close> (code points 39, 115).\<close>

definition truthy_str :: "pystr option \<Rightarrow> bool" where
  "truthy_str x = (case x of None \<Rightarrow> False | Some t \<Rightarrow> t \<noteq> [])"

definition py_or :: "pystr option \<Rightarrow> pystr option \<Rightarrow> pystr option" where
  "py_or a b = (if truthy_str a then a else b)"

fun contains :: "pystr \<Rightarrow> pystr \<Rightarrow> bool" where
  "contains needle [] = (needle = [])"
| "contains needle (c # cs) = (take (length needle) (c # cs) = needle \<or> contains needle cs)"

definition strip_quotes :: "pystr \<Rightarrow> pystr" where
  "strip_quotes t = rev (dropWhile (\<lambda>c. c = 34) (rev (dropWhile (\<lambda>c. c = 34) t)))"

definition remove_commas :: "pystr \<Rightarrow> pystr" where
  "remove_commas t = filter (\<lambda>c. c \<noteq> 44) t"

fun remove_possessive :: "pystr \<Rightarrow> pystr" where
  "remove_possessive (a # b # cs) =
     (if a = 39 \<and> b = 115 then remove_possessive cs else a # remove_possessive (b # cs))"
| "remove_possessive cs = cs"

text \<open>\<open>for pattern in patterns: m = re.search(pattern, text); if m: ...; break\<close>.\<close>

fun first_match :: "runtime \<Rightarrow> pattern list \<Rightarrow> pystr \<Rightarrow> match option" where
  "first_match rt [] text = None"
| "first_match rt (p # ps) text =
     (case rt_search rt p text of Some m \<Rightarrow> Some m | None \<Rightarrow> first_match rt ps text)"

text \<open>The body of \<open>try: amount = int(...); currency = ...\<close>: \<open>Inr None\<close> is the \<open>ValueError\<close>
  that the source passes over; a missing first group makes \<open>replace\<close> raise.\<close>

definition read_reward :: "runtime \<Rightarrow> match \<Rightarrow> mission_details \<Rightarrow> py_error + mission_details option" where
  "read_reward rt m d =
     (case group 1 m of
        None \<Rightarrow> Inl AttributeError
      | Some digits \<Rightarrow>
          (case rt_int rt (remove_commas digits) of
             None \<Rightarrow> Inr None
           | Some amount \<Rightarrow>
               Inr (Some (d\<lparr>md_reward_amount := amount, md_reward_currency := group 2 m\<rparr>))))"

text \<open>The loop over \<open>reward_patterns\<close>: it stops at the first pattern whose match reads as a
  reward.\<close>

fun find_reward ::
  "runtime \<Rightarrow> pattern list \<Rightarrow> pystr \<Rightarrow> mission_details \<Rightarrow> py_error + mission_details" where
  "find_reward rt [] dialogue d = Inr d"
| "find_reward rt (p # ps) dialogue d =
     (case rt_search rt p dialogue of
        None \<Rightarrow> find_reward rt ps dialogue d
      | Some m \<Rightarrow>
          (case read_reward rt m d of
             Inl e \<Rightarrow> Inl e
           | Inr None \<Rightarrow> find_reward rt ps dialogue d
           | Inr (Some d') \<Rightarrow> Inr d'))"

definition villain_patterns :: "pattern list" where
  "villain_patterns = [Villain1, Villain2]"

definition objective_patterns :: "pattern list" where
  "objective_patterns = [Objective1, Objective2, Objective3, Objective4, Objective5]"

definition deadline_patterns :: "pattern list" where
  "deadline_patterns = [Deadline1, Deadline2, Deadline3, Deadline4]"

definition reward_patterns :: "pattern list" where
  "reward_patterns = [Reward1, Reward2, Reward3, Reward4]"

text \<open>A loop whose body may raise.\<close>

fun for_each :: "('a \<Rightarrow> 's \<Rightarrow> py_error + 's) \<Rightarrow> 'a list \<Rightarrow> 's \<Rightarrow> py_error + 's" where
  "for_each f [] s = Inr s"
| "for_each f (x # xs) s = (case f x s of Inl e \<Rightarrow> Inl e | Inr s' \<Rightarrow> for_each f xs s')"

text \<open>The body of \<open>for match in dialogue_matches\<close>. An f-string prints a missing group as
  \<open>None\<close>.\<close>

definition process_dialogue ::
  "runtime \<Rightarrow> character \<Rightarrow> pystr \<Rightarrow> match \<Rightarrow> mission_details \<Rightarrow> py_error + mission_details" where
  "process_dialogue rt giver giver_name m d =
     (case group 1 m of
        None \<Rightarrow> Inl AttributeError
      | Some quoted \<Rightarrow>
          (let dialogue = strip_quotes quoted;
               d1 = d\<lparr>md_giver := Some giver_name,
                      md_giver_id :=
                        (case ch_id giver of
                           None \<Rightarrow> None
                         | Some i \<Rightarrow> if i \<noteq> 0 \<and> rt_character_exists rt i then Some i else None)\<rparr>;
               d2 = (case first_match rt villain_patterns dialogue of
                       None \<Rightarrow> d1
                     | Some vm \<Rightarrow> d1\<lparr>md_target := group 1 vm\<rparr>)
           in case (case first_match rt objective_patterns dialogue of
                      None \<Rightarrow> Inr d2
                    | Some om \<Rightarrow>
                        (case group 1 om of
                           None \<Rightarrow> Inl AttributeError
                         | Some objective \<Rightarrow> Inr (d2\<lparr>md_objective := rt_strip rt objective\<rparr>))) of
                Inl e \<Rightarrow> Inl e
              | Inr d3 \<Rightarrow>
                  (let d4 = (case first_match rt deadline_patterns dialogue of
                               None \<Rightarrow> d3
                             | Some dm \<Rightarrow>
                                 d3\<lparr>md_deadline :=
                                      lit ''Complete within '' @ get_or (group 1 dm) (lit ''None'')
                                      @ lit '' '' @ get_or (group 2 dm) (lit ''None'')\<rparr>)
                   in find_reward rt reward_patterns dialogue d4)))"

text \<open>The body of \<open>for giver in mission_givers\<close>.\<close>

definition process_giver ::
  "runtime \<Rightarrow> pystr \<Rightarrow> character \<Rightarrow> mission_details \<Rightarrow> py_error + mission_details" where
  "process_giver rt story_text giver d =
     (case py_or (ch_character_name giver) (ch_name giver) of
        None \<Rightarrow> Inr d
      | Some giver_name \<Rightarrow>
          if giver_name = [] then Inr d
          else for_each (process_dialogue rt giver giver_name)
                 (rt_finditer rt (DialogueOf giver_name) story_text) d)"

definition is_mission_giver :: "runtime \<Rightarrow> character \<Rightarrow> bool" where
  "is_mission_giver rt c =
     (ch_character_role c = Some (lit ''mission-giver'')
      \<or> contains (lit ''giver'') (rt_lower rt (get_or (ch_character_role c) [])))"

text \<open>The block under \<open>if not mission_details["giver"]\<close>.\<close>

definition general_patterns ::
  "runtime \<Rightarrow> pystr \<Rightarrow> mission_details \<Rightarrow> py_error + mission_details" where
  "general_patterns rt story_text d =
     (let d1 = (case rt_search rt GeneralGiver story_text of
                  None \<Rightarrow> d
                | Some gm \<Rightarrow> d\<lparr>md_giver := group 1 gm\<rparr>);
          d2 = (case rt_search rt GeneralTarget story_text of
                  None \<Rightarrow> d1
                | Some tm \<Rightarrow>
                    (let target = (if truthy_str (group 1 tm) then group 1 tm else group 2 tm)
                     in d1\<lparr>md_target :=
                            (case target of
                               None \<Rightarrow> None
                             | Some t \<Rightarrow>
                                 if t \<noteq> [] \<and> contains [39, 115] t
                                 then Some (remove_possessive t) else Some t)\<rparr>))
      in case (case rt_search rt GeneralObjective story_text of
                 None \<Rightarrow> Inr d2
               | Some om \<Rightarrow>
                   (case group 1 om of
                      None \<Rightarrow> Inl AttributeError
                    | Some objective \<Rightarrow> Inr (d2\<lparr>md_objective := rt_strip rt objective\<rparr>))) of
           Inl e \<Rightarrow> Inl e
         | Inr d3 \<Rightarrow>
             (case rt_search rt GeneralReward story_text of
                None \<Rightarrow> Inr d3
              | Some rm \<Rightarrow>
                  (case read_reward rt rm d3 of
                     Inl e \<Rightarrow> Inl e
                   | Inr None \<Rightarrow> Inr d3
                   | Inr (Some d4) \<Rightarrow> Inr d4)))"

text \<open>The loop that links the target name to a character id; it stops at the first
  character whose name contains the target.\<close>

fun link_target :: "pystr \<Rightarrow> character list \<Rightarrow> mission_details \<Rightarrow> mission_details" where
  "link_target target [] d = d"
| "link_target target (c # cs) d =
     (case py_or (ch_character_name c) (ch_name c) of
        None \<Rightarrow> link_target target cs d
      | Some char_name \<Rightarrow>
          if char_name \<noteq> [] \<and> contains target char_name
          then d\<lparr>md_target_id := ch_id c\<rparr>
          else link_target target cs d)"

text \<open>Everything before the difficulty is set.\<close>

definition gather_details ::
  "runtime \<Rightarrow> pystr \<Rightarrow> character list option \<Rightarrow> py_error + mission_details" where
  "gather_details rt story_text characters =
     (let mission_givers = filter (is_mission_giver rt) (list_or_empty characters)
      in case for_each (process_giver rt story_text) mission_givers initial_details of
           Inl e \<Rightarrow> Inl e
         | Inr d1 \<Rightarrow>
             (case (if truthy_str (md_giver d1) then Inr d1
                    else general_patterns rt story_text d1) of
                Inl e \<Rightarrow> Inl e
              | Inr d2 \<Rightarrow>
                  Inr (case md_target d2 of
                         None \<Rightarrow> d2
                       | Some target \<Rightarrow>
                           if target \<noteq> [] \<and> \<not> truthy_id (md_target_id d2)
                           then link_target target (list_or_empty characters) d2
                           else d2)))"

text \<open>The dialogue texts that the loops over givers and matches search for a reward.\<close>

definition giver_dialogues :: "runtime \<Rightarrow> pystr \<Rightarrow> character \<Rightarrow> pystr list" where
  "giver_dialogues rt story_text giver =
     (case py_or (ch_character_name giver) (ch_name giver) of
        None \<Rightarrow> []
      | Some giver_name \<Rightarrow>
          if giver_name = [] then []
          else concat (map (\<lambda>m. case group 1 m of None \<Rightarrow> [] | Some quoted \<Rightarrow> [strip_quotes quoted])
                         (rt_finditer rt (DialogueOf giver_name) story_text)))"

definition searched_dialogues :: "runtime \<Rightarrow> pystr \<Rightarrow> character list option \<Rightarrow> pystr list" where
  "searched_dialogues rt story_text characters =
     concat (map (giver_dialogues rt story_text)
               (filter (is_mission_giver rt) (list_or_empty characters)))"

text \<open>\<open>BASE_REWARDS[mission_details["reward_currency"]]\<close> raises \<open>KeyError\<close> on a key that
  the table does not hold. The comparisons \<open>amount > base * 2.5\<close> and
  \<open>amount > base * 1.5\<close> are written over the integers.\<close>

definition set_difficulty :: "mission_details \<Rightarrow> py_error + mission_details" where
  "set_difficulty d =
     (case md_reward_currency d of
        None \<Rightarrow> Inl KeyError
      | Some currency \<Rightarrow>
          (case BASE_REWARDS currency of
             None \<Rightarrow> Inl KeyError
           | Some base \<Rightarrow>
               Inr (d\<lparr>md_difficulty :=
                        (if 2 * md_reward_amount d > 5 * base then lit ''hard''
                         else if 2 * md_reward_amount d > 3 * base then lit ''medium''
                         else lit ''easy'')\<rparr>)))"

text \<open>\<open>extract_mission_details\<close>: the handler turns every exception into \<open>None\<close>.\<close>

definition extract_mission_details ::
  "runtime \<Rightarrow> pystr \<Rightarrow> character list option \<Rightarrow> mission_details option" where
  "extract_mission_details rt story_text characters =
     (case gather_details rt story_text characters of
        Inl e \<Rightarrow> None
      | Inr d \<Rightarrow> (case set_difficulty d of Inl e \<Rightarrow> None | Inr d' \<Rightarrow> Some d'))"

section \<open>A small session used as concrete input\<close>

definition ex_mission :: "pystr \<Rightarrow> mission" where
  "ex_mission st = \<lparr>m_user_id = lit ''u1'', m_title = lit ''Tail the courier'',
     m_giver_id = Some 3, m_target_id = Some 4, m_status = st, m_progress = 80,
     m_progress_updates = None, m_difficulty = lit ''hard'',
     m_reward_currency = [128142], m_reward_amount = 7, m_completed_at = None\<rparr>"

definition ex_progress :: user_progress where
  "ex_progress = \<lparr>current_story_id = Some 1, current_node_id = Some 10, node_count = 2,
     last_active = None, choice_history = Some [10], encountered_characters = None,
     active_missions = Some [5, 6], completed_missions = None, failed_missions = None,
     currency_balances = Map.empty, experience_points = 0, relationships = Map.empty\<rparr>"

definition ex_store :: "pystr \<Rightarrow> mission_store" where
  "ex_store st = \<lparr>missions = [6 \<mapsto> ex_mission st], user_progresses = [lit ''u1'' \<mapsto> ex_progress]\<rparr>"

definition ex_meta :: branch_metadata where
  "ex_meta =
     \<lparr>bm_encountered_characters = Some
        [\<lparr>bc_id = Some 3, bc_name = Present (lit ''Mara''),
          bc_backstory = Present (lit ''handler''), bc_plot_lines = Absent\<rparr>,
         \<lparr>bc_id = Some 4, bc_name = Present (lit ''Voss''), bc_backstory = Null,
          bc_plot_lines = Present [lit ''arms deal'']\<rparr>],
      bm_mission_info = Present
        \<lparr>mi_title = Present (lit ''Tail the courier''), mi_objective = Null,
         mi_status = Present (lit ''active''), mi_progress = Present 80\<rparr>\<rparr>"

definition ex_node ::
  "int \<Rightarrow> int option \<Rightarrow> pystr \<Rightarrow> timestamp \<Rightarrow> branch_metadata option \<Rightarrow> story_node" where
  "ex_node i parent text created md =
     \<lparr>n_id = i, n_story_id = 1, n_parent_node_id = parent, n_narrative_text = Some text,
      n_created_at = created, n_branch_metadata = md\<rparr>"

definition ex_nodes :: "story_node list" where
  "ex_nodes =
     [ex_node 10 None (lit ''Rain over Vienna.'') 100 None,
      ex_node 11 (Some 10) (lit ''A courier waits.'') 101 None,
      ex_node 12 (Some 11) (lit ''Mara calls.'') 102 (Some ex_meta),
      ex_node 13 (Some 12) (lit ''The tram leaves.'') 103 None,
      ex_node 14 (Some 13) (lit ''Voss appears.'') 104 None]"

definition ex_old_snapshot :: char_snapshot where
  "ex_old_snapshot =
     \<lparr>cs_name = Some (lit ''M.''), cs_backstory = Some (lit ''unknown caller''),
      cs_plot_lines = Some []\<rparr>"

definition ex_story :: story where
  "ex_story = \<lparr>s_id = 1, s_primary_conflict = lit ''mole hunt'', s_setting = lit ''Vienna''\<rparr>"

definition ex_state :: game_state where
  "ex_state =
     \<lparr>user_progress = ex_progress\<lparr>choice_history := Some [10, 11],
                                  encountered_characters := Some [lit ''3'' \<mapsto> ex_old_snapshot]\<rparr>,
      current_story = Some ex_story,
      current_node = Some (ex_node 11 (Some 10) (lit ''A courier waits.'') 101 None),
      gs_node_count = 2,
      story_history_buffer = [],
      max_history_nodes = 3\<rparr>"

definition ex_calls :: "transition_call list" where
  "ex_calls = [(ex_nodes, 201, 12, True), (ex_nodes, 202, 13, True),
               (ex_nodes, 203, 14, True), (ex_nodes, 204, 10, True)]"

definition ex_stories :: "story list" where
  "ex_stories = [ex_story,
     \<lparr>s_id = 2, s_primary_conflict = lit ''heist'', s_setting = lit ''Lisbon''\<rparr>,
     \<lparr>s_id = 3, s_primary_conflict = lit ''defection'', s_setting = lit ''Berlin''\<rparr>]"

definition ex_nodes2 :: "story_node list" where
  "ex_nodes2 = ex_nodes @
     [\<lparr>n_id = 20, n_story_id = 2, n_parent_node_id = None, n_narrative_text = Some (lit ''Lisbon, dawn.''),
       n_created_at = 50, n_branch_metadata = None\<rparr>,
      \<lparr>n_id = 21, n_story_id = 2, n_parent_node_id = Some 20, n_narrative_text = Some (lit ''The vault.''),
       n_created_at = 60, n_branch_metadata = None\<rparr>]"

definition ex_arcs :: "plot_arc list" where
  "ex_arcs = [\<lparr>pa_story_id = 1, pa_status = lit ''active'', pa_key_nodes = Some [10, 77]\<rparr>,
              \<lparr>pa_story_id = 1, pa_status = lit ''resolved'', pa_key_nodes = Some [11]\<rparr>,
              \<lparr>pa_story_id = 1, pa_status = lit ''active'', pa_key_nodes = None\<rparr>]"

definition ex_nodes3 :: "story_node list" where
  "ex_nodes3 =
     [\<lparr>n_id = 31, n_story_id = 4, n_parent_node_id = None, n_narrative_text = None,
       n_created_at = 70, n_branch_metadata = None\<rparr>,
      \<lparr>n_id = 32, n_story_id = 4, n_parent_node_id = Some 31,
       n_narrative_text = Some (lit ''Static on the line.''),
       n_created_at = 71, n_branch_metadata = None\<rparr>,
      \<lparr>n_id = 33, n_story_id = 4, n_parent_node_id = None,
       n_narrative_text = Some (lit ''A dead drop.''),
       n_created_at = 72,
       n_branch_metadata = Some \<lparr>bm_encountered_characters = None, bm_mission_info = Null\<rparr>\<rparr>]"

definition ex_long_nodes :: "story_node list" where
  "ex_long_nodes =
     [\<lparr>n_id = 40, n_story_id = 5, n_parent_node_id = None,
       n_narrative_text = Some (replicate 201 97),
       n_created_at = 80, n_branch_metadata = None\<rparr>,
      \<lparr>n_id = 41, n_story_id = 5, n_parent_node_id = Some 40,
       n_narrative_text = Some (lit ''Later.''),
       n_created_at = 81, n_branch_metadata = None\<rparr>]"

definition ex_world :: world where
  "ex_world =
     \<lparr>state = ex_state,
      session_nodes = ex_nodes,
      stored_nodes = ex_nodes,
      stored_progress = ex_progress\<lparr>current_node_id := Some 12, choice_history := Some [10, 11, 12]\<rparr>,
      story_rows = ex_stories\<rparr>"

definition ex_runtime :: "bool \<Rightarrow> runtime" where
  "ex_runtime reward_found =
     \<lparr>rt_search = (\<lambda>p text.
         if p = Objective1 then Some [Some (lit ''follow Voss'')]
         else if reward_found \<and> p = Reward1 then Some [Some (lit ''5,000''), Some [128181]]
         else None),
      rt_finditer = (\<lambda>p text.
         if p = DialogueOf (lit ''Mara'')
         then [[Some ([34] @ lit ''I need you to follow Voss.'' @ [34])]]
         else []),
      rt_int = (\<lambda>t. if t = lit ''5000'' then Some 5000 else None),
      rt_lower = (\<lambda>t. t),
      rt_strip = (\<lambda>t. t),
      rt_character_exists = (\<lambda>i. True)\<rparr>"

definition ex_characters :: "character list" where
  "ex_characters =
     [\<lparr>ch_id = Some 3, ch_character_name = Some (lit ''Mara''), ch_name = None,
       ch_character_role = Some (lit ''mission-giver'')\<rparr>,
      \<lparr>ch_id = Some 4, ch_character_name = Some (lit ''Voss''), ch_name = None,
       ch_character_role = Some (lit ''villain'')\<rparr>]"

section \<open>Facts about the Python values\<close>

lemma lit_eq_iff [simp]: "lit a = lit b \<longleftrightarrow> a = b"
  unfolding lit_def by (simp add: inj_map_eq_map inj_on_def)

lemma dict_or_empty_Some [simp]: "dict_or_empty (Some m) = m"
  by (simp add: dict_or_empty_def)

section \<open>Mission state machine: results\<close>

lemma complete_terminal:
  assumes "get_mission_by_id d mission_id = Some m" and "m_status m \<noteq> lit ''active''"
  shows "complete_mission now mission_id user_id d = (False, d)"
  using assms by (simp add: complete_mission_def)

lemma fail_terminal:
  assumes "get_mission_by_id d mission_id = Some m" and "m_status m \<noteq> lit ''active''"
  shows "fail_mission now mission_id user_id reason d = (False, d)"
  using assms by (simp add: fail_mission_def)

text \<open>
  C4. For a mission whose status is \<open>completed\<close> or \<open>failed\<close>, both \<open>complete_mission\<close>
  and \<open>fail_mission\<close> return \<open>False\<close> and hand back the store they were given: the
  mission's status, progress and \<open>progress_updates\<close> and the user's mission lists are the
  ones from before the call.
\<close>

theorem terminal_mission_is_noop:
  assumes "get_mission_by_id d mission_id = Some m"
      and "m_status m = lit ''completed'' \<or> m_status m = lit ''failed''"
  shows "complete_mission now mission_id user_id d = (False, d)
       \<and> fail_mission now mission_id user_id reason d = (False, d)"
proof -
  from assms(2) have "m_status m \<noteq> lit ''active''" by auto
  with assms(1) show ?thesis by (simp add: complete_terminal fail_terminal)
qed

text \<open>C4 at a failed mission of the example store.\<close>

theorem terminal_mission_is_noop_witness:
  "complete_mission 9 6 (lit ''u1'') (ex_store (lit ''failed'')) = (False, ex_store (lit ''failed''))
   \<and> fail_mission 9 6 (lit ''u1'') None (ex_store (lit ''failed'')) = (False, ex_store (lit ''failed''))"
  using terminal_mission_is_noop [of "ex_store (lit ''failed'')" 6 "ex_mission (lit ''failed'')" 9 "lit ''u1''" None]
  by (simp add: get_mission_by_id_def ex_store_def ex_mission_def)

lemma relationship_level_change:
  "relationship_level (change_character_relationship c delta up) x
     = relationship_level up x + (if x = c then delta else 0)"
  by (simp add: relationship_level_def change_character_relationship_def)

lemma relationship_level_if_id:
  "relationship_level (if_id i (\<lambda>c. change_character_relationship c delta) up) x
     = relationship_level up x + (if i = Some x \<and> x \<noteq> 0 then delta else 0)"
  by (auto simp: if_id_def relationship_level_change split: option.splits)

lemma if_id_change_fields:
  "active_missions (if_id i (\<lambda>c. change_character_relationship c delta) up) = active_missions up"
  "completed_missions (if_id i (\<lambda>c. change_character_relationship c delta) up) = completed_missions up"
  "failed_missions (if_id i (\<lambda>c. change_character_relationship c delta) up) = failed_missions up"
  "currency_balances (if_id i (\<lambda>c. change_character_relationship c delta) up) = currency_balances up"
  by (simp_all add: if_id_def change_character_relationship_def split: option.splits)

lemma reward_user_active:
  "active_missions (reward_user mid m up)
     = Some (remove_if_present mid (list_or_empty (active_missions up)))"
  by (simp add: reward_user_def Let_def if_id_change_fields add_experience_points_def)

lemma reward_user_completed:
  "completed_missions (reward_user mid m up)
     = Some (list_or_empty (completed_missions up) @ [mid])"
  by (simp add: reward_user_def Let_def if_id_change_fields add_experience_points_def)

lemma credit_reward_apply:
  "credit_reward cur amount b c
     = (if c = cur then Some ((case b cur of None \<Rightarrow> 0 | Some x \<Rightarrow> x) + amount) else b c)"
  by (simp add: credit_reward_def split: option.splits)

lemma reward_user_balances:
  "currency_balances (reward_user mid m up) c
     = (if c = m_reward_currency m
        then Some ((case currency_balances up c of None \<Rightarrow> 0 | Some x \<Rightarrow> x) + m_reward_amount m)
        else currency_balances up c)"
  by (simp add: reward_user_def Let_def if_id_change_fields add_experience_points_def
      credit_reward_apply)

lemma reward_user_relationship:
  "relationship_level (reward_user mid m up) c
     = relationship_level up c
       + (if m_giver_id m = Some c \<and> c \<noteq> 0 then 2 else 0)
       - (if m_target_id m = Some c \<and> c \<noteq> 0 then 3 else 0)"
  by (simp add: reward_user_def Let_def relationship_level_if_id)
     (simp add: relationship_level_def add_experience_points_def)

lemma remove_if_present_distinct:
  "distinct xs \<Longrightarrow> x \<notin> set (remove_if_present x xs)"
  by (simp add: remove_if_present_def)

lemma complete_mission_active:
  assumes "get_mission_by_id d mission_id = Some m" and "m_status m = lit ''active''"
      and "user_progresses d user_id = Some up"
  shows "complete_mission now mission_id user_id d =
     (True, \<lparr>missions = (missions d)(mission_id \<mapsto>
                m\<lparr>m_status := lit ''completed'', m_completed_at := Some now, m_progress := 100,
                  m_progress_updates := Some (list_or_empty (m_progress_updates m) @ [completed_entry now])\<rparr>),
             user_progresses = (user_progresses d)(user_id \<mapsto> reward_user mission_id
                (m\<lparr>m_status := lit ''completed'', m_completed_at := Some now, m_progress := 100,
                  m_progress_updates := Some (list_or_empty (m_progress_updates m) @ [completed_entry now])\<rparr>) up)\<rparr>)"
  using assms by (simp add: complete_mission_def Let_def)

text \<open>
  C3. For an active mission and an existing user row, \<open>complete_mission\<close> returns \<open>True\<close>;
  the mission is \<open>completed\<close> with progress 100 and one more audit entry at the end of
  \<open>progress_updates\<close>; the mission id leaves the user's active list (its first occurrence,
  hence every occurrence of a duplicate-free list) and is appended to the completed list; the
  balance of the reward currency grows by the reward amount, starting from nothing when the
  currency had no bucket, and no other balance moves; the relationship level rises by 2
  toward the giver and falls by 3 toward the target, for each of the two ids that is set.
\<close>

theorem complete_mission_effects:
  assumes "get_mission_by_id d mission_id = Some m"
      and "m_status m = lit ''active''"
      and "user_progresses d user_id = Some up"
  shows "\<exists>d' m' up'.
      complete_mission now mission_id user_id d = (True, d')
    \<and> get_mission_by_id d' mission_id = Some m'
    \<and> user_progresses d' user_id = Some up'
    \<and> m_status m' = lit ''completed''
    \<and> m_progress m' = 100
    \<and> m_progress_updates m' = Some (list_or_empty (m_progress_updates m) @ [completed_entry now])
    \<and> active_missions up' = Some (remove_if_present mission_id (list_or_empty (active_missions up)))
    \<and> (distinct (list_or_empty (active_missions up))
         \<longrightarrow> mission_id \<notin> set (list_or_empty (active_missions up')))
    \<and> completed_missions up' = Some (list_or_empty (completed_missions up) @ [mission_id])
    \<and> (\<forall>c. currency_balances up' c =
          (if c = m_reward_currency m
           then Some ((case currency_balances up c of None \<Rightarrow> 0 | Some b \<Rightarrow> b) + m_reward_amount m)
           else currency_balances up c))
    \<and> (\<forall>c. relationship_level up' c =
          relationship_level up c
          + (if m_giver_id m = Some c \<and> c \<noteq> 0 then 2 else 0)
          - (if m_target_id m = Some c \<and> c \<noteq> 0 then 3 else 0))"
proof -
  define m' where "m' = m\<lparr>m_status := lit ''completed'', m_completed_at := Some now, m_progress := 100,
      m_progress_updates := Some (list_or_empty (m_progress_updates m) @ [completed_entry now])\<rparr>"
  define up' where "up' = reward_user mission_id m' up"
  define d' where "d' = \<lparr>missions = (missions d)(mission_id \<mapsto> m'),
      user_progresses = (user_progresses d)(user_id \<mapsto> up')\<rparr>"
  have run: "complete_mission now mission_id user_id d = (True, d')"
    using complete_mission_active [OF assms] by (simp add: d'_def up'_def m'_def)
  have gm: "get_mission_by_id d' mission_id = Some m'"
    by (simp add: get_mission_by_id_def d'_def)
  have gu: "user_progresses d' user_id = Some up'"
    by (simp add: d'_def)
  have st: "m_status m' = lit ''completed''" and pr: "m_progress m' = 100"
    and pu: "m_progress_updates m' = Some (list_or_empty (m_progress_updates m) @ [completed_entry now])"
    and same: "m_reward_currency m' = m_reward_currency m" "m_reward_amount m' = m_reward_amount m"
       "m_giver_id m' = m_giver_id m" "m_target_id m' = m_target_id m"
    by (simp_all add: m'_def)
  have act: "active_missions up' = Some (remove_if_present mission_id (list_or_empty (active_missions up)))"
    by (simp add: up'_def reward_user_active)
  have gone: "distinct (list_or_empty (active_missions up))
         \<longrightarrow> mission_id \<notin> set (list_or_empty (active_missions up'))"
    by (simp add: act list_or_empty_def remove_if_present_distinct split: option.splits)
  have comp: "completed_missions up' = Some (list_or_empty (completed_missions up) @ [mission_id])"
    by (simp add: up'_def reward_user_completed)
  have bal: "\<forall>c. currency_balances up' c =
          (if c = m_reward_currency m
           then Some ((case currency_balances up c of None \<Rightarrow> 0 | Some b \<Rightarrow> b) + m_reward_amount m)
           else currency_balances up c)"
    by (simp add: up'_def reward_user_balances same)
  have rel: "\<forall>c. relationship_level up' c =
          relationship_level up c
          + (if m_giver_id m = Some c \<and> c \<noteq> 0 then 2 else 0)
          - (if m_target_id m = Some c \<and> c \<noteq> 0 then 3 else 0)"
    by (simp add: up'_def reward_user_relationship same)
  from run gm gu st pr pu act gone comp bal rel show ?thesis by blast
qed

text \<open>C3 at the active mission of the example store: giver 3, target 4, reward 7 diamonds.\<close>

theorem complete_mission_effects_witness:
  "\<exists>d' m' up'.
      complete_mission 9 6 (lit ''u1'') (ex_store (lit ''active'')) = (True, d')
    \<and> get_mission_by_id d' 6 = Some m'
    \<and> user_progresses d' (lit ''u1'') = Some up'
    \<and> m_status m' = lit ''completed''
    \<and> m_progress m' = 100
    \<and> m_progress_updates m' = Some [completed_entry 9]
    \<and> active_missions up' = Some [5]
    \<and> 6 \<notin> set (list_or_empty (active_missions up'))
    \<and> completed_missions up' = Some [6]
    \<and> currency_balances up' [128142] = Some 7
    \<and> relationship_level up' 3 = 2
    \<and> relationship_level up' 4 = - 3"
proof -
  have a: "get_mission_by_id (ex_store (lit ''active'')) 6 = Some (ex_mission (lit ''active''))"
    by (simp add: get_mission_by_id_def ex_store_def)
  have b: "m_status (ex_mission (lit ''active'')) = lit ''active''"
    by (simp add: ex_mission_def)
  have c: "user_progresses (ex_store (lit ''active'')) (lit ''u1'') = Some ex_progress"
    by (simp add: ex_store_def)
  from complete_mission_effects [OF a b c, of 9]
  obtain d' m' up' where
      "complete_mission 9 6 (lit ''u1'') (ex_store (lit ''active'')) = (True, d')"
      "get_mission_by_id d' 6 = Some m'"
      "user_progresses d' (lit ''u1'') = Some up'"
      "m_status m' = lit ''completed''"
      "m_progress m' = 100"
      "m_progress_updates m' = Some (list_or_empty (m_progress_updates (ex_mission (lit ''active''))) @ [completed_entry 9])"
      "active_missions up' = Some (remove_if_present 6 (list_or_empty (active_missions ex_progress)))"
      "distinct (list_or_empty (active_missions ex_progress))
         \<longrightarrow> 6 \<notin> set (list_or_empty (active_missions up'))"
      "completed_missions up' = Some (list_or_empty (completed_missions ex_progress) @ [6])"
      "\<forall>c. currency_balances up' c =
          (if c = m_reward_currency (ex_mission (lit ''active''))
           then Some ((case currency_balances ex_progress c of None \<Rightarrow> 0 | Some b \<Rightarrow> b) + m_reward_amount (ex_mission (lit ''active'')))
           else currency_balances ex_progress c)"
      "\<forall>c. relationship_level up' c =
          relationship_level ex_progress c
          + (if m_giver_id (ex_mission (lit ''active'')) = Some c \<and> c \<noteq> 0 then 2 else 0)
          - (if m_target_id (ex_mission (lit ''active'')) = Some c \<and> c \<noteq> 0 then 3 else 0)"
    by blast
  then show ?thesis
    by (intro exI [of _ d'] exI [of _ m'] exI [of _ up'])
       (simp add: ex_mission_def ex_progress_def list_or_empty_def remove_if_present_def
          relationship_level_def)
qed

section \<open>Transition: results\<close>

text \<open>
  C5. When the node id does not resolve to a node, \<open>transition_to_node\<close> raises and the
  session state is the one from before the call: history buffer, current node,
  \<open>current_node_id\<close>, choice history, encountered characters and \<open>last_active\<close>.
\<close>

theorem transition_invalid_node_no_mutation:
  assumes "get_node nodes node_id = None"
  shows "transition_to_node nodes now node_id upd s = (Inl ValueError, s)"
  using assms by (simp add: transition_to_node_def)

lemma transition_success_iff:
  "fst (transition_to_node nodes now node_id upd s) = Inr True \<longleftrightarrow> get_node nodes node_id \<noteq> None"
  by (simp add: transition_to_node_def Let_def split: option.splits)

lemma transition_result:
  assumes "get_node nodes node_id = Some n"
  shows "transition_to_node nodes now node_id upd s =
     (Inr True,
      (let s1 = (case current_node s of None \<Rightarrow> s | Some cur \<Rightarrow> update_story_history now cur s);
           s2 = s1\<lparr>current_node := Some n\<rparr>
       in if upd then s2\<lparr>user_progress := record_visit now node_id n (user_progress s2)\<rparr> else s2))"
  using assms by (simp add: transition_to_node_def Let_def)

lemma update_story_history_user_progress [simp]:
  "user_progress (update_story_history now cur s) = user_progress s"
  by (simp add: update_story_history_def Let_def)

lemma transition_user_progress:
  assumes "get_node nodes node_id = Some n"
  shows "user_progress (snd (transition_to_node nodes now node_id upd s))
     = (if upd then record_visit now node_id n (user_progress s) else user_progress s)"
  by (simp add: transition_result [OF assms] Let_def split: option.splits)

lemma merge_encountered_choice_history [simp]:
  "choice_history (merge_encountered n up) = choice_history up"
  by (simp add: merge_encountered_def Let_def split: option.splits)

lemma record_visit_choice_history:
  "choice_history (record_visit now node_id n up) =
     Some (if node_id \<in> set (list_or_empty (choice_history up))
           then list_or_empty (choice_history up)
           else list_or_empty (choice_history up) @ [node_id])"
  by (simp add: record_visit_def Let_def)

text \<open>
  C6, as the code has it. A successful transition that updates the progress row appends the
  node id to the choice history exactly when the id occurs nowhere in that history; the
  earlier entries stay in place. Without the update the history is untouched.
\<close>

theorem choice_history_append_unless_member:
  assumes "transition_to_node nodes now node_id upd s = (Inr True, s')"
  shows "choice_history (user_progress s') =
     (if upd
      then Some (if node_id \<in> set (list_or_empty (choice_history (user_progress s)))
                 then list_or_empty (choice_history (user_progress s))
                 else list_or_empty (choice_history (user_progress s)) @ [node_id])
      else choice_history (user_progress s))"
proof -
  from assms have "get_node nodes node_id \<noteq> None"
    using transition_success_iff [of nodes now node_id upd s] by simp
  then obtain n where n: "get_node nodes node_id = Some n" by blast
  from assms have "s' = snd (transition_to_node nodes now node_id upd s)" by simp
  then show ?thesis
    by (simp add: transition_user_progress [OF n] record_visit_choice_history)
qed

lemma foldl_merge_char:
  "foldl merge_char m cs cid =
     (case m cid of Some v \<Rightarrow> Some v
      | None \<Rightarrow> map_option snapshot_of (find (\<lambda>c. str_id (bc_id c) = cid) cs))"
proof (induction cs arbitrary: m)
  case Nil
  then show ?case by (simp split: option.splits)
next
  case (Cons c cs)
  show ?case
    by (simp add: Cons.IH) (auto simp: merge_char_def Let_def split: option.splits)
qed

lemma merge_encountered_known:
  "known_characters (merge_encountered n up) cid =
     (case known_characters up cid of Some v \<Rightarrow> Some v
      | None \<Rightarrow> map_option snapshot_of (find (\<lambda>c. str_id (bc_id c) = cid) (listed_characters n)))"
  by (simp add: merge_encountered_def known_characters_def listed_characters_def Let_def
      foldl_merge_char split: option.splits)

lemma record_visit_known:
  "known_characters (record_visit now node_id n up) cid =
     (case known_characters up cid of Some v \<Rightarrow> Some v
      | None \<Rightarrow> map_option snapshot_of (find (\<lambda>c. str_id (bc_id c) = cid) (listed_characters n)))"
  by (simp add: record_visit_def Let_def merge_encountered_known) (simp add: known_characters_def)

text \<open>
  C7. Across a successful transition every character id that is in the encountered-character
  map keeps its snapshot. An id that is not in the map enters it exactly when the transition
  updates the progress row and the new node's metadata lists a character with that id, and
  then with the name, backstory and plot lines of the first listed entry that carries the
  id; no other id enters.
\<close>

theorem encountered_characters_write_once:
  assumes "transition_to_node nodes now node_id upd s = (Inr True, s')"
  shows "\<exists>n. get_node nodes node_id = Some n
       \<and> (\<forall>cid v. known_characters (user_progress s) cid = Some v
              \<longrightarrow> known_characters (user_progress s') cid = Some v)
       \<and> (\<forall>cid. known_characters (user_progress s) cid = None
              \<longrightarrow> known_characters (user_progress s') cid =
                    (if upd
                     then map_option snapshot_of
                            (find (\<lambda>c. str_id (bc_id c) = cid) (listed_characters n))
                     else None))"
proof -
  from assms have "get_node nodes node_id \<noteq> None"
    using transition_success_iff [of nodes now node_id upd s] by simp
  then obtain n where n: "get_node nodes node_id = Some n" by blast
  from assms have s': "s' = snd (transition_to_node nodes now node_id upd s)" by simp
  have up: "user_progress s' =
      (if upd then record_visit now node_id n (user_progress s) else user_progress s)"
    by (simp add: s' transition_user_progress [OF n])
  have kept: "\<forall>cid v. known_characters (user_progress s) cid = Some v
              \<longrightarrow> known_characters (user_progress s') cid = Some v"
    by (simp add: up record_visit_known)
  have added: "\<forall>cid. known_characters (user_progress s) cid = None
              \<longrightarrow> known_characters (user_progress s') cid =
                    (if upd
                     then map_option snapshot_of
                            (find (\<lambda>c. str_id (bc_id c) = cid) (listed_characters n))
                     else None)"
    by (simp add: up record_visit_known)
  from n kept added show ?thesis by blast
qed

section \<open>Rolling history buffer: results\<close>

lemma last_n_short: "length xs \<le> k \<Longrightarrow> last_n k xs = xs"
  by (simp add: last_n_def)

lemma last_n_append_last_n: "last_n k (last_n k xs @ ys) = last_n k (xs @ ys)"
proof (cases "length xs \<le> k")
  case True
  then show ?thesis by (simp add: last_n_def)
next
  case False
  then obtain m where m: "length xs = m + k"
    by (metis add.commute le_add_diff_inverse nat_le_linear)
  show ?thesis by (simp add: last_n_def m add.commute)
qed

lemma length_last_n: "length (last_n k xs) = min k (length xs)"
  by (simp add: last_n_def)

lemma last_n_append_long: "k \<le> length ys \<Longrightarrow> last_n k (xs @ ys) = last_n k ys"
  by (simp add: last_n_def)

lemma push_is_last_n:
  assumes "length buf \<le> k" and "0 < k"
  shows "(if length (buf @ [e]) > k then tl (buf @ [e]) else buf @ [e]) = last_n k (buf @ [e])"
proof (cases "length buf = k")
  case True
  then show ?thesis using assms by (cases buf) (simp_all add: last_n_def)
next
  case False
  with assms have "length (buf @ [e]) \<le> k" by simp
  then show ?thesis by (simp add: last_n_short del: length_append)
qed

lemma update_story_history_buffer:
  assumes "length (story_history_buffer s) \<le> max_history_nodes s" and "0 < max_history_nodes s"
  shows "story_history_buffer (update_story_history now cur s)
     = last_n (max_history_nodes s) (story_history_buffer s @ [history_entry_of now cur])"
  using push_is_last_n [OF assms] by (simp add: update_story_history_def Let_def)

lemma update_story_history_max [simp]:
  "max_history_nodes (update_story_history now cur s) = max_history_nodes s"
  by (simp add: update_story_history_def Let_def)

lemma transition_max [simp]:
  "max_history_nodes (snd (transition_to_node nodes now node_id upd s)) = max_history_nodes s"
  by (simp add: transition_to_node_def Let_def split: option.splits)

lemma transition_current_node:
  "succeeds (nodes, now, node_id, upd) s \<Longrightarrow>
     current_node (snd (transition_to_node nodes now node_id upd s)) \<noteq> None"
  by (auto simp: succeeds_def transition_to_node_def Let_def split: option.splits)

text \<open>One call: the buffer afterwards is the last entries of the buffer before, followed by
  the node the call leaves.\<close>

lemma transition_buffer:
  assumes "length (story_history_buffer s) \<le> max_history_nodes s" and "0 < max_history_nodes s"
  shows "story_history_buffer (snd (transition_to_node nodes now node_id upd s))
     = last_n (max_history_nodes s)
         (story_history_buffer s @ departed [(nodes, now, node_id, upd)] s)"
proof (cases "get_node nodes node_id")
  case None
  then show ?thesis using assms
    by (simp add: transition_to_node_def succeeds_def last_n_short)
next
  case (Some n)
  show ?thesis
  proof (cases "current_node s")
    case None
    then show ?thesis using assms Some
      by (simp add: transition_result [OF Some] succeeds_def Let_def last_n_short)
  next
    case (Some cur)
    then show ?thesis using assms \<open>get_node nodes node_id = Some n\<close>
      by (simp add: transition_result [of nodes node_id n] succeeds_def Let_def
          update_story_history_buffer)
  qed
qed

lemma run_transitions_buffer:
  assumes "length (story_history_buffer s) \<le> max_history_nodes s" and "0 < max_history_nodes s"
  shows "story_history_buffer (run_transitions calls s)
           = last_n (max_history_nodes s) (story_history_buffer s @ departed calls s)
       \<and> max_history_nodes (run_transitions calls s) = max_history_nodes s"
  using assms
proof (induction calls arbitrary: s)
  case Nil
  then show ?case by (simp add: last_n_short)
next
  case (Cons call calls)
  obtain nodes now node_id upd where call: "call = (nodes, now, node_id, upd)"
    by (cases call) auto
  define s1 where "s1 = snd (transition_to_node nodes now node_id upd s)"
  have buf1: "story_history_buffer s1 = last_n (max_history_nodes s)
      (story_history_buffer s @ departed [(nodes, now, node_id, upd)] s)"
    unfolding s1_def using Cons.prems by (rule transition_buffer)
  have max1: "max_history_nodes s1 = max_history_nodes s"
    by (simp add: s1_def)
  have len1: "length (story_history_buffer s1) \<le> max_history_nodes s1"
    by (simp add: buf1 max1 length_last_n del: departed.simps)
  have pos1: "0 < max_history_nodes s1" using Cons.prems max1 by simp
  have dep: "departed (call # calls) s = departed [(nodes, now, node_id, upd)] s @ departed calls s1"
    by (simp add: call s1_def)
  have "story_history_buffer (run_transitions (call # calls) s)
      = story_history_buffer (run_transitions calls s1)"
    by (simp add: call s1_def)
  also have "\<dots> = last_n (max_history_nodes s1) (story_history_buffer s1 @ departed calls s1)"
    using Cons.IH [OF len1 pos1] by simp
  also have "\<dots> = last_n (max_history_nodes s) (story_history_buffer s @ departed (call # calls) s)"
    by (simp only: buf1 max1 dep last_n_append_last_n append_assoc)
  finally have a: "story_history_buffer (run_transitions (call # calls) s)
      = last_n (max_history_nodes s) (story_history_buffer s @ departed (call # calls) s)" .
  have "max_history_nodes (run_transitions (call # calls) s) = max_history_nodes (run_transitions calls s1)"
    by (simp add: call s1_def)
  with Cons.IH [OF len1 pos1] max1 a show ?case by simp
qed

lemma departed_length_current:
  "all_succeed calls s \<Longrightarrow> current_node s \<noteq> None \<Longrightarrow> length (departed calls s) = length calls"
proof (induction calls arbitrary: s)
  case Nil
  then show ?case by simp
next
  case (Cons call calls)
  obtain nodes now node_id upd where call: "call = (nodes, now, node_id, upd)"
    by (cases call) auto
  from Cons.prems have ok: "succeeds (nodes, now, node_id, upd) s"
    and rest: "all_succeed calls (snd (transition_to_node nodes now node_id upd s))"
    by (simp_all add: call)
  from Cons.prems obtain cur where cur: "current_node s = Some cur" by auto
  have "length (departed calls (snd (transition_to_node nodes now node_id upd s))) = length calls"
    using Cons.IH [OF rest transition_current_node [OF ok]] .
  then show ?case by (simp add: call ok cur)
qed

lemma departed_length:
  assumes "all_succeed calls s"
  shows "length calls \<le> Suc (length (departed calls s))"
proof (cases calls)
  case Nil
  then show ?thesis by simp
next
  case (Cons call rest)
  obtain nodes now node_id upd where call: "call = (nodes, now, node_id, upd)"
    by (cases call) auto
  from assms have ok: "succeeds (nodes, now, node_id, upd) s"
    and rest: "all_succeed rest (snd (transition_to_node nodes now node_id upd s))"
    by (simp_all add: Cons call)
  have "length (departed rest (snd (transition_to_node nodes now node_id upd s))) = length rest"
    using departed_length_current [OF rest transition_current_node [OF ok]] .
  then show ?thesis by (simp add: Cons call)
qed

text \<open>
  C8. From a state whose buffer holds at most 3 entries with the limit set to 3, the buffer
  holds at most 3 entries after any run of transitions; after more than 3 successful
  transitions it holds exactly 3 entries, the last three nodes that the run left, oldest
  first, each stamped at the call that left it.
\<close>

theorem history_buffer_bound:
  assumes "max_history_nodes s = 3" and "length (story_history_buffer s) \<le> 3"
  shows "length (story_history_buffer (run_transitions calls s)) \<le> 3
       \<and> (all_succeed calls s \<and> 3 < length calls \<longrightarrow>
            story_history_buffer (run_transitions calls s) = last_n 3 (departed calls s)
          \<and> length (story_history_buffer (run_transitions calls s)) = 3)"
proof -
  have buf: "story_history_buffer (run_transitions calls s)
      = last_n 3 (story_history_buffer s @ departed calls s)"
    using run_transitions_buffer [of s calls] assms by simp
  have bound: "length (story_history_buffer (run_transitions calls s)) \<le> 3"
    by (simp add: buf length_last_n del: length_append)
  have exact: "story_history_buffer (run_transitions calls s) = last_n 3 (departed calls s)
          \<and> length (story_history_buffer (run_transitions calls s)) = 3"
    if ok: "all_succeed calls s" and many: "3 < length calls"
  proof -
    from departed_length [OF ok] many have "3 \<le> length (departed calls s)" by simp
    then show ?thesis by (simp add: buf last_n_append_long length_last_n)
  qed
  from bound exact show ?thesis by blast
qed

section \<open>Node resolver: results\<close>

lemma latest_created_None: "latest_created ns = None \<longleftrightarrow> ns = []"
  by (induction ns) (auto split: option.splits)

lemma latest_created_max:
  "latest_created ns = Some m \<Longrightarrow>
     m \<in> set ns \<and> (\<forall>k\<in>set ns. n_created_at k \<le> n_created_at m)"
proof (induction ns arbitrary: m)
  case Nil
  then show ?case by simp
next
  case (Cons n ns)
  show ?case
  proof (cases "latest_created ns")
    case None
    then have "ns = []" by (simp add: latest_created_None)
    with Cons.prems show ?thesis by simp
  next
    case (Some m')
    from Cons.IH [OF Some] have in_ns: "m' \<in> set ns"
      and top: "\<forall>k\<in>set ns. n_created_at k \<le> n_created_at m'" by simp_all
    show ?thesis
    proof (cases "n_created_at n < n_created_at m'")
      case True
      with Cons.prems Some have "m = m'" by simp
      with in_ns top True show ?thesis by auto
    next
      case False
      with Cons.prems Some have "m = n" by simp
      with top False show ?thesis by fastforce
    qed
  qed
qed

lemma latest_node_None: "latest_node nodes t = None \<longleftrightarrow> (\<forall>k\<in>set nodes. n_story_id k \<noteq> t)"
  by (simp add: latest_node_def latest_created_None filter_empty_conv)

lemma latest_node_Some:
  assumes "latest_node nodes t = Some n"
  shows "n \<in> set nodes \<and> n_story_id n = t
       \<and> (\<forall>k\<in>set nodes. n_story_id k = t \<longrightarrow> n_created_at k \<le> n_created_at n)"
  using latest_created_max [OF assms [unfolded latest_node_def]] by auto

lemma root_node_Some:
  "root_node nodes t = Some n \<Longrightarrow> n \<in> set nodes \<and> n_story_id n = t \<and> n_parent_node_id n = None"
  by (auto simp: root_node_def find_Some_iff)

lemma pointer_node_Some:
  "pointer_node nodes t s = Some n \<longleftrightarrow>
     (\<exists>i. current_node_id (user_progress s) = Some i \<and> i \<noteq> 0
          \<and> get_node nodes i = Some n \<and> n_story_id n = t)"
  by (auto simp: pointer_node_def split: option.splits)

lemma resolve_current_node_order:
  assumes "target_story_id story_id s = Some t" and "t \<noteq> 0" and "get_story stories t = Some st"
  shows "resolve_current_node stories nodes story_id s =
     (case pointer_node nodes t s of
        Some n \<Rightarrow> Some n
      | None \<Rightarrow> (case latest_node nodes t of Some n \<Rightarrow> Some n | None \<Rightarrow> root_node nodes t))"
  using assms
  by (simp add: resolve_current_node_def resolve_current_node_body_def split: option.splits)

text \<open>Priority 3 never decides: a story without a latest node has no node at all.\<close>

lemma root_node_without_latest: "latest_node nodes t = None \<Longrightarrow> root_node nodes t = None"
  by (auto simp: latest_node_None root_node_def find_None_iff)

text \<open>
  C2. For a requested story that exists, \<open>resolve_current_node\<close> returns the node under
  \<open>current_node_id\<close> when that id is set, resolves, and the node belongs to the requested
  story; a pointer into another story falls through. Otherwise it returns a node of the story
  with the greatest creation time; otherwise the story's root node (no parent); and when none
  of the three yields a node the result is \<open>None\<close>.
\<close>

theorem resolve_current_node_priority:
  assumes "target_story_id story_id s = Some t" and "t \<noteq> 0" and "get_story stories t = Some st"
  shows "(\<forall>n. pointer_node nodes t s = Some n
            \<longrightarrow> resolve_current_node stories nodes story_id s = Some n)
       \<and> (\<forall>n. pointer_node nodes t s = None \<and> latest_node nodes t = Some n
            \<longrightarrow> resolve_current_node stories nodes story_id s = Some n)
       \<and> (pointer_node nodes t s = None \<and> latest_node nodes t = None
            \<longrightarrow> resolve_current_node stories nodes story_id s = root_node nodes t)
       \<and> (pointer_node nodes t s = None \<and> latest_node nodes t = None \<and> root_node nodes t = None
            \<longrightarrow> resolve_current_node stories nodes story_id s = None)
       \<and> (\<forall>n. pointer_node nodes t s = Some n \<longleftrightarrow>
                (\<exists>i. current_node_id (user_progress s) = Some i \<and> i \<noteq> 0
                     \<and> get_node nodes i = Some n \<and> n_story_id n = t))
       \<and> (\<forall>n. latest_node nodes t = Some n \<longrightarrow>
                n \<in> set nodes \<and> n_story_id n = t
                \<and> (\<forall>k\<in>set nodes. n_story_id k = t \<longrightarrow> n_created_at k \<le> n_created_at n))
       \<and> (latest_node nodes t = None \<longleftrightarrow> (\<forall>k\<in>set nodes. n_story_id k \<noteq> t))
       \<and> (\<forall>n. root_node nodes t = Some n \<longrightarrow>
                n \<in> set nodes \<and> n_story_id n = t \<and> n_parent_node_id n = None)"
proof -
  note order = resolve_current_node_order [OF assms, of nodes]
  have a: "\<forall>n. pointer_node nodes t s = Some n
            \<longrightarrow> resolve_current_node stories nodes story_id s = Some n"
    by (simp add: order)
  have b: "\<forall>n. pointer_node nodes t s = None \<and> latest_node nodes t = Some n
            \<longrightarrow> resolve_current_node stories nodes story_id s = Some n"
    by (simp add: order)
  have c: "pointer_node nodes t s = None \<and> latest_node nodes t = None
            \<longrightarrow> resolve_current_node stories nodes story_id s = root_node nodes t"
    by (simp add: order)
  have d: "pointer_node nodes t s = None \<and> latest_node nodes t = None \<and> root_node nodes t = None
            \<longrightarrow> resolve_current_node stories nodes story_id s = None"
    by (simp add: order)
  have e: "\<forall>n. pointer_node nodes t s = Some n \<longleftrightarrow>
                (\<exists>i. current_node_id (user_progress s) = Some i \<and> i \<noteq> 0
                     \<and> get_node nodes i = Some n \<and> n_story_id n = t)"
    by (simp add: pointer_node_Some)
  have f: "\<forall>n. latest_node nodes t = Some n \<longrightarrow>
                n \<in> set nodes \<and> n_story_id n = t
                \<and> (\<forall>k\<in>set nodes. n_story_id k = t \<longrightarrow> n_created_at k \<le> n_created_at n)"
    using latest_node_Some by blast
  have g: "latest_node nodes t = None \<longleftrightarrow> (\<forall>k\<in>set nodes. n_story_id k \<noteq> t)"
    by (rule latest_node_None)
  have h: "\<forall>n. root_node nodes t = Some n \<longrightarrow>
                n \<in> set nodes \<and> n_story_id n = t \<and> n_parent_node_id n = None"
    using root_node_Some by blast
  from a b c d e f g h show ?thesis by blast
qed

section \<open>Context assembly: results\<close>

lemma collect_ancestors_spec:
  "collect_ancestors nodes p c acc = acc @ spec_ancestors (5 - c) nodes p"
proof (induction nodes p c acc rule: collect_ancestors.induct)
  case (1 nodes parent_id ancestor_count ancestor_nodes)
  show ?case
  proof (cases parent_id)
    case None
    then show ?thesis
      by (cases "5 - ancestor_count") (simp_all add: collect_ancestors.simps)
  next
    case (Some pid)
    show ?thesis
    proof (cases "pid \<noteq> 0 \<and> ancestor_count < 5")
      case False
      then show ?thesis using Some
        by (cases "5 - ancestor_count") (auto simp: collect_ancestors.simps)
    next
      case True
      then obtain k where k: "5 - ancestor_count = Suc k" "5 - Suc ancestor_count = k"
        by (cases "5 - ancestor_count") auto
      show ?thesis
      proof (cases "get_node nodes pid")
        case None
        then show ?thesis using Some True k
          by (simp add: collect_ancestors.simps)
      next
        case (Some parent)
        from "1.IH" [OF \<open>parent_id = Some pid\<close> True Some]
        show ?thesis using \<open>parent_id = Some pid\<close> True Some k
          by (simp add: collect_ancestors.simps [of nodes "Some pid"])
      qed
    qed
  qed
qed

lemma length_spec_ancestors: "length (spec_ancestors hops nodes p) \<le> hops"
  by (induction hops nodes p rule: spec_ancestors.induct) (auto split: option.splits)

lemma truncated_Some: "truncated cap (Some t) = Inr (spec_clip cap t)"
  by (simp add: truncated_def spec_clip_def)

lemma numbered_lines_ok:
  "\<forall>n\<in>set ns. n_narrative_text n \<noteq> None \<Longrightarrow>
     numbered_lines label cap i ns = Inr (map (spec_line label cap) (enumerate i ns))"
proof (induction ns arbitrary: i)
  case Nil
  then show ?case by simp
next
  case (Cons n ns)
  from Cons.prems obtain t where t: "n_narrative_text n = Some t" by auto
  from Cons.prems have "\<forall>n\<in>set ns. n_narrative_text n \<noteq> None" by simp
  from Cons.IH [OF this, of "Suc i"] show ?case
    by (simp add: t truncated_Some spec_line_def get_or_def)
qed

lemma numbered_lines_error:
  "\<exists>n\<in>set ns. n_narrative_text n = None \<Longrightarrow> \<exists>e. numbered_lines label cap i ns = Inl e"
proof (induction ns arbitrary: i)
  case Nil
  then show ?case by simp
next
  case (Cons n ns)
  show ?case
  proof (cases "n_narrative_text n")
    case None
    then show ?thesis by (simp add: truncated_def)
  next
    case (Some t)
    with Cons.prems have "\<exists>n\<in>set ns. n_narrative_text n = None" by auto
    from Cons.IH [OF this, of "Suc i"] obtain e where "numbered_lines label cap (Suc i) ns = Inl e"
      by blast
    then show ?thesis by (simp add: Some truncated_Some)
  qed
qed

lemma key_section_ok:
  assumes "\<forall>n\<in>set (filter (\<lambda>n. n_id n \<in> set ids) nodes). n_narrative_text n \<noteq> None"
  shows "key_section nodes ids
     = Inr (spec_section (lit ''KEY PLOT POINTS:'') (lit ''MOMENT'') 300
              (filter (\<lambda>n. n_id n \<in> set ids) nodes))"
proof (cases "ids = []")
  case True
  then show ?thesis by (simp add: key_section_def spec_section_def)
next
  case False
  then show ?thesis
    using numbered_lines_ok [OF assms, of "lit ''MOMENT''" 300 1]
    by (simp add: key_section_def spec_section_def Let_def)
qed

lemma key_section_error:
  assumes "\<exists>n\<in>set (filter (\<lambda>n. n_id n \<in> set ids) nodes). n_narrative_text n = None"
  shows "\<exists>e. key_section nodes ids = Inl e"
proof -
  from assms have ne: "ids \<noteq> []" "filter (\<lambda>n. n_id n \<in> set ids) nodes \<noteq> []"
    by (auto simp: filter_empty_conv)
  from numbered_lines_error [OF assms, of "lit ''MOMENT''" 300 1] obtain e
    where "numbered_lines (lit ''MOMENT'') 300 1 (filter (\<lambda>n. n_id n \<in> set ids) nodes) = Inl e"
    by blast
  with ne show ?thesis by (simp add: key_section_def Let_def)
qed

lemma ancestor_section_ok:
  assumes "\<forall>n\<in>set ns. n_narrative_text n \<noteq> None"
  shows "ancestor_section ns = Inr (spec_section (lit ''RECENT STORY HISTORY:'') (lit ''SCENE'') 200 ns)"
  using numbered_lines_ok [OF assms, of "lit ''SCENE''" 200 1]
  by (simp add: ancestor_section_def spec_section_def)

lemma ancestor_section_error:
  assumes "\<exists>n\<in>set ns. n_narrative_text n = None"
  shows "\<exists>e. ancestor_section ns = Inl e"
proof -
  from assms have ne: "ns \<noteq> []" by auto
  from numbered_lines_error [OF assms, of "lit ''SCENE''" 200 1] obtain e
    where "numbered_lines (lit ''SCENE'') 200 1 ns = Inl e" by blast
  with ne show ?thesis by (simp add: ancestor_section_def)
qed

lemma length_spec_clip:
  "length (spec_clip cap t) = (if cap < length t then cap + 3 else length t)"
  by (simp add: spec_clip_def lit_def)

lemma take_spec_clip: "take cap (spec_clip cap t) = take cap t"
  by (simp add: spec_clip_def)

lemma join_lines_spec: "join_lines ls = spec_join ls"
  by (induction ls rule: join_lines.induct) (simp_all add: spec_join_def)

lemma format_text_spec:
  "format_text (dict_get f fallback) = spec_shown (\<lambda>t. t) fallback f"
  by (cases f) (simp_all add: format_text_def dict_get_def spec_shown_def)

lemma format_int_spec:
  "format_int (dict_get f 0) = spec_shown str_int (lit ''0'') f"
  by (cases f)
     (simp_all add: format_int_def dict_get_def spec_shown_def str_int_def str_nat.simps lit_def)

lemma mission_section_spec:
  "mission_section current =
     (if mission_info_null current then Inl AttributeError
      else Inr (spec_mission_section current))"
  by (simp add: mission_section_def mission_info_null_def spec_mission_section_def
      spec_snapshot_def format_text_spec format_int_spec split: option.splits slot.splits)
     (simp add: lit_def)

lemma context_of_found_node:
  assumes "get_node nodes node_id = Some current"
  shows "get_enhanced_context arcs nodes node_id =
     (if (\<forall>n\<in>set (spec_key_nodes arcs nodes current
                    @ spec_ancestors 5 nodes (n_parent_node_id current)). n_narrative_text n \<noteq> None)
         \<and> \<not> mission_info_null current
      then spec_context arcs nodes current else [])"
proof -
  let ?ks = "spec_key_nodes arcs nodes current"
  let ?as = "spec_ancestors 5 nodes (n_parent_node_id current)"
  let ?texts = "\<forall>n\<in>set (?ks @ ?as). n_narrative_text n \<noteq> None"
  have anc: "collect_ancestors nodes (n_parent_node_id current) 0 [] = ?as"
    by (simp add: collect_ancestors_spec)
  have body: "get_enhanced_context arcs nodes node_id =
      (case key_section nodes (key_node_ids_of arcs (n_story_id current)) of
         Inl e \<Rightarrow> []
       | Inr key_part \<Rightarrow>
           (case ancestor_section (rev ?as) of
              Inl e \<Rightarrow> []
            | Inr ancestor_part \<Rightarrow>
                (case mission_section current of
                   Inl e \<Rightarrow> []
                 | Inr mission_part \<Rightarrow> join_lines (key_part @ ancestor_part @ mission_part))))"
    by (simp add: get_enhanced_context_def get_enhanced_context_body_def assms Let_def anc
        split: sum.splits)
  show ?thesis
  proof (cases "\<forall>n\<in>set ?ks. n_narrative_text n \<noteq> None")
    case kt: True
    then have k: "key_section nodes (key_node_ids_of arcs (n_story_id current))
        = Inr (spec_section (lit ''KEY PLOT POINTS:'') (lit ''MOMENT'') 300 ?ks)"
      unfolding spec_key_nodes_def by (rule key_section_ok)
    show ?thesis
    proof (cases "\<forall>n\<in>set ?as. n_narrative_text n \<noteq> None")
      case at: True
      then have "\<forall>n\<in>set (rev ?as). n_narrative_text n \<noteq> None" by simp
      note a = ancestor_section_ok [OF this]
      from kt at have texts: ?texts by auto
      show ?thesis
      proof (cases "mission_info_null current")
        case True
        then have ctx: "get_enhanced_context arcs nodes node_id = []"
          by (simp add: body k a mission_section_spec)
        from True have c: "\<not> (?texts \<and> \<not> mission_info_null current)" by simp
        show ?thesis unfolding if_not_P [OF c] by (fact ctx)
      next
        case False
        then have ctx: "get_enhanced_context arcs nodes node_id = spec_context arcs nodes current"
          by (simp add: body k a mission_section_spec spec_context_def join_lines_spec)
        from texts False have c: "?texts \<and> \<not> mission_info_null current" by simp
        show ?thesis unfolding if_P [OF c] by (fact ctx)
      qed
    next
      case False
      then have "\<exists>n\<in>set (rev ?as). n_narrative_text n = None" by simp
      from ancestor_section_error [OF this] obtain e where "ancestor_section (rev ?as) = Inl e"
        by blast
      then have ctx: "get_enhanced_context arcs nodes node_id = []"
        by (simp add: body k)
      from False have c: "\<not> (?texts \<and> \<not> mission_info_null current)"
        by auto
      show ?thesis unfolding if_not_P [OF c] by (fact ctx)
    qed
  next
    case False
    then have "\<exists>n\<in>set (filter (\<lambda>n. n_id n \<in> set (key_node_ids_of arcs (n_story_id current))) nodes).
        n_narrative_text n = None"
      by (simp add: spec_key_nodes_def)
    from key_section_error [OF this] obtain e
      where "key_section nodes (key_node_ids_of arcs (n_story_id current)) = Inl e" by blast
    then have ctx: "get_enhanced_context arcs nodes node_id = []"
      by (simp add: body)
    from False have c: "\<not> (?texts \<and> \<not> mission_info_null current)"
      by auto
    show ?thesis unfolding if_not_P [OF c] by (fact ctx)
  qed
qed

text \<open>
  C9, as the code has it. \<open>get_enhanced_context\<close> always returns a text. The text is empty
  when the node id resolves to nothing, when a node that would be printed has no narrative
  text, or when the mission snapshot of the node holds \<open>None\<close> (the code raises and the
  handler answers with the empty text). Otherwise it is the text of the spec: the key plot
  points; then at most 5 ancestors, found by following parent pointers up to the root or for
  5 hops, oldest first; then the mission snapshot of the node; a section with nothing in it
  is left out. A key plot point is cut to its first 300 characters and an ancestor to its
  first 200, and a text that was longer is followed by three dots, so that it takes 303 or
  203 characters of the line.
\<close>

theorem get_enhanced_context_structure:
  "get_enhanced_context arcs nodes node_id =
     (case get_node nodes node_id of
        None \<Rightarrow> []
      | Some current \<Rightarrow>
          if (\<forall>n\<in>set (spec_key_nodes arcs nodes current
                        @ spec_ancestors 5 nodes (n_parent_node_id current)).
                n_narrative_text n \<noteq> None)
             \<and> \<not> mission_info_null current
          then spec_context arcs nodes current
          else [])
   \<and> length (spec_ancestors 5 nodes p) \<le> 5
   \<and> length (spec_clip cap t) = (if cap < length t then cap + 3 else length t)
   \<and> take cap (spec_clip cap t) = take cap t"
proof -
  have "get_enhanced_context arcs nodes node_id =
     (case get_node nodes node_id of
        None \<Rightarrow> []
      | Some current \<Rightarrow>
          if (\<forall>n\<in>set (spec_key_nodes arcs nodes current
                        @ spec_ancestors 5 nodes (n_parent_node_id current)).
                n_narrative_text n \<noteq> None)
             \<and> \<not> mission_info_null current
          then spec_context arcs nodes current
          else [])"
  proof (cases "get_node nodes node_id")
    case None
    then show ?thesis
      by (simp add: get_enhanced_context_def get_enhanced_context_body_def)
  next
    case (Some current)
    then show ?thesis by (simp only: context_of_found_node [OF Some] option.case)
  qed
  then show ?thesis
    using length_spec_ancestors [of 5 nodes p] length_spec_clip [of cap t] take_spec_clip [of cap t]
    by blast
qed

section \<open>Choice processing: results\<close>

lemma commit_fields [simp]:
  "state (commit w) = state w"
  "session_nodes (commit w) = session_nodes w"
  "stored_nodes (commit w) = session_nodes w"
  "stored_progress (commit w) = user_progress (state w)"
  by (simp_all add: commit_def)

lemma rollback_fields [simp]:
  "gs_node_count (state (rollback w)) = gs_node_count (state w)"
  "user_progress (state (rollback w)) = stored_progress w"
  "session_nodes (rollback w) = stored_nodes w"
  "stored_nodes (rollback w) = stored_nodes w"
  "stored_progress (rollback w) = stored_progress w"
  by (simp_all add: rollback_def)

lemma if_id_keeps:
  assumes "\<And>i s. P (f i s) = P s"
  shows "P (if_id x f s) = P s"
  using assms by (simp add: if_id_def split: option.splits)

lemma reload_state_fields [simp]:
  "gs_node_count (state (reload_state w)) = node_count (stored_progress w)"
  "user_progress (state (reload_state w)) = stored_progress w"
  "session_nodes (reload_state w) = session_nodes w"
  "stored_nodes (reload_state w) = stored_nodes w"
  "stored_progress (reload_state w) = stored_progress w"
  "story_rows (reload_state w) = story_rows w"
  by (simp_all add: reload_state_def Let_def if_id_def split: option.splits)

lemma increment_node_count_fields:
  "fst (increment_node_count c w) = gs_node_count (state w) + 1"
  "gs_node_count (state (snd (increment_node_count c w))) = gs_node_count (state w) + 1"
  "stored_progress (snd (increment_node_count c w))
     = (if c = Committed
        then (user_progress (state w))\<lparr>node_count := gs_node_count (state w) + 1\<rparr>
        else stored_progress w)"
  "stored_nodes (snd (increment_node_count c w))
     = (if c = Committed then session_nodes w else stored_nodes w)"
  by (cases c; simp add: increment_node_count_def Let_def)+

lemma make_choice_body_generation_failed:
  assumes "reaches_generation w"
  shows "make_choice_body c now md mission_updates (Inl e) (reload_state w)
     = (Inl e, snd (increment_node_count c (reload_state w)))"
  using assms
  by (auto simp: reaches_generation_def make_choice_body_def Let_def split: option.splits)

text \<open>
  C1, as the code has it. When the call to \<open>generate_continuation\<close> fails after the
  increment, \<open>make_choice\<close> rolls the session back and raises; it creates no node; and the
  node count is not restored: the count of the \<open>GameState\<close> object stays one above the
  value loaded at the start of the call, and the persisted count is one higher as well when
  the commit inside \<open>increment_node_count\<close> made it durable.
\<close>

theorem failed_generation_keeps_increment:
  assumes "reaches_generation w"
  shows "\<exists>w'. make_choice outcome now metadata mission_updates (Inl e) w = (Inl RuntimeError, w')
       \<and> gs_node_count (state w') = node_count (stored_progress w) + 1
       \<and> node_count (stored_progress w')
           = (if outcome = Committed then node_count (stored_progress w) + 1
              else node_count (stored_progress w))
       \<and> session_nodes w' = (if outcome = Committed then session_nodes w else stored_nodes w)
       \<and> stored_nodes w' = session_nodes w'"
proof -
  define w2 where "w2 = snd (increment_node_count outcome (reload_state w))"
  have run: "make_choice outcome now metadata mission_updates (Inl e) w = (Inl RuntimeError, rollback w2)"
    by (simp add: make_choice_def make_choice_body_generation_failed [OF assms] w2_def)
  have mem: "gs_node_count (state (rollback w2)) = node_count (stored_progress w) + 1"
    by (simp add: w2_def increment_node_count_fields)
  have row: "node_count (stored_progress (rollback w2))
      = (if outcome = Committed then node_count (stored_progress w) + 1
              else node_count (stored_progress w))"
    by (simp add: w2_def increment_node_count_fields)
  have nodes: "session_nodes (rollback w2) = (if outcome = Committed then session_nodes w else stored_nodes w)"
    by (simp add: w2_def increment_node_count_fields)
  have same: "stored_nodes (rollback w2) = session_nodes (rollback w2)"
    by simp
  from run mem row nodes same show ?thesis by blast
qed

section \<open>Mission extraction: results\<close>

lemma BASE_REWARDS_empty: "BASE_REWARDS [] = None"
  by (simp add: BASE_REWARDS_def)

lemma find_reward_no_match:
  "\<forall>p\<in>set ps. rt_search rt p dialogue = None \<Longrightarrow> find_reward rt ps dialogue d = Inr d"
  by (induction ps) simp_all

lemma for_each_invariant:
  assumes step: "\<And>x s s'. x \<in> set xs \<Longrightarrow> f x s = Inr s' \<Longrightarrow> P s \<Longrightarrow> P s'"
  shows "for_each f xs s = Inr s' \<Longrightarrow> P s \<Longrightarrow> P s'"
  using step
proof (induction xs arbitrary: s)
  case Nil
  then show ?case by simp
next
  case (Cons x xs)
  from Cons.prems(1) obtain s1 where s1: "f x s = Inr s1" and rest: "for_each f xs s1 = Inr s'"
    by (auto split: sum.splits)
  have first: "P s1"
    using Cons.prems(3) [of x s s1] s1 Cons.prems(2) by simp
  have later: "\<And>y t t'. y \<in> set xs \<Longrightarrow> f y t = Inr t' \<Longrightarrow> P t \<Longrightarrow> P t'"
    using Cons.prems(3) by (meson list.set_intros(2))
  from Cons.IH [OF rest first later] show ?case .
qed

lemma process_dialogue_currency:
  assumes run: "process_dialogue rt giver giver_name m d = Inr d'"
      and none: "\<And>quoted. group 1 m = Some quoted \<Longrightarrow>
                   \<forall>p\<in>set reward_patterns. rt_search rt p (strip_quotes quoted) = None"
  shows "md_reward_currency d' = md_reward_currency d"
proof (cases "group 1 m")
  case None
  with run show ?thesis by (simp add: process_dialogue_def)
next
  case (Some quoted)
  then have g: "group (Suc 0) m = Some quoted" by simp
  from run show ?thesis
    by (auto simp: process_dialogue_def Let_def g find_reward_no_match [OF none [OF Some]]
        split: option.splits sum.splits)
qed

lemma process_giver_currency:
  assumes run: "process_giver rt story_text giver d = Inr d'"
      and none: "\<forall>p\<in>set reward_patterns. \<forall>dialogue\<in>set (giver_dialogues rt story_text giver).
                   rt_search rt p dialogue = None"
  shows "md_reward_currency d' = md_reward_currency d"
proof (cases "py_or (ch_character_name giver) (ch_name giver)")
  case None
  with run show ?thesis by (simp add: process_giver_def)
next
  case (Some giver_name)
  show ?thesis
  proof (cases "giver_name = []")
    case True
    with run Some show ?thesis by (simp add: process_giver_def)
  next
    case False
    let ?matches = "rt_finditer rt (DialogueOf giver_name) story_text"
    from run Some False
    have loop: "for_each (process_dialogue rt giver giver_name) ?matches d = Inr d'"
      by (simp add: process_giver_def)
    have searched: "strip_quotes quoted \<in> set (giver_dialogues rt story_text giver)"
      if "m \<in> set ?matches" and "group 1 m = Some quoted" for m quoted
      using that Some False by (force simp: giver_dialogues_def)
    show ?thesis
    proof (rule for_each_invariant
            [where P = "\<lambda>x. md_reward_currency x = md_reward_currency d", OF _ loop])
      fix m s s'
      assume m: "m \<in> set ?matches"
        and step: "process_dialogue rt giver giver_name m s = Inr s'"
        and inv: "md_reward_currency s = md_reward_currency d"
      have "md_reward_currency s' = md_reward_currency s"
        using step
      proof (rule process_dialogue_currency)
        fix quoted
        assume "group 1 m = Some quoted"
        from searched [OF m this] none
        show "\<forall>p\<in>set reward_patterns. rt_search rt p (strip_quotes quoted) = None"
          by blast
      qed
      with inv show "md_reward_currency s' = md_reward_currency d" by simp
    qed simp
  qed
qed

lemma general_patterns_currency:
  assumes none: "rt_search rt GeneralReward story_text = None"
      and run: "general_patterns rt story_text d = Inr d'"
  shows "md_reward_currency d' = md_reward_currency d"
  using run
  by (auto simp: general_patterns_def Let_def none split: option.splits sum.splits)

lemma link_target_currency [simp]:
  "md_reward_currency (link_target target cs d) = md_reward_currency d"
  by (induction cs) (auto split: option.splits)

lemma gather_details_currency:
  assumes dialogue: "\<forall>p\<in>set reward_patterns.
                       \<forall>dialogue\<in>set (searched_dialogues rt story_text characters).
                         rt_search rt p dialogue = None"
      and general: "rt_search rt GeneralReward story_text = None"
      and run: "gather_details rt story_text characters = Inr d"
  shows "md_reward_currency d = Some []"
proof -
  let ?givers = "filter (is_mission_giver rt) (list_or_empty characters)"
  from run obtain d1 d2 where
      loop: "for_each (process_giver rt story_text) ?givers initial_details = Inr d1"
    and fallback: "(if truthy_str (md_giver d1) then Inr d1
                    else general_patterns rt story_text d1) = Inr d2"
    and link: "d = (case md_target d2 of
                         None \<Rightarrow> d2
                       | Some target \<Rightarrow>
                           if target \<noteq> [] \<and> \<not> truthy_id (md_target_id d2)
                           then link_target target (list_or_empty characters) d2
                           else d2)"
    by (auto simp: gather_details_def Let_def split: sum.splits)
  have c1: "md_reward_currency d1 = md_reward_currency initial_details"
  proof (rule for_each_invariant
          [where P = "\<lambda>x. md_reward_currency x = md_reward_currency initial_details", OF _ loop])
    fix giver s s'
    assume giver: "giver \<in> set ?givers"
      and step: "process_giver rt story_text giver s = Inr s'"
      and inv: "md_reward_currency s = md_reward_currency initial_details"
    from giver have "set (giver_dialogues rt story_text giver)
        \<subseteq> set (searched_dialogues rt story_text characters)"
      by (auto simp: searched_dialogues_def)
    with dialogue have "\<forall>p\<in>set reward_patterns.
        \<forall>dialogue\<in>set (giver_dialogues rt story_text giver). rt_search rt p dialogue = None"
      by blast
    from process_giver_currency [OF step this] inv
    show "md_reward_currency s' = md_reward_currency initial_details" by simp
  qed simp
  have c2: "md_reward_currency d2 = md_reward_currency d1"
    using fallback general_patterns_currency [OF general] by (auto split: if_splits)
  have c3: "md_reward_currency d = md_reward_currency d2"
    by (simp add: link split: option.splits)
  from c1 c2 c3 show ?thesis by (simp add: initial_details_def)
qed

lemma set_difficulty_default_currency:
  "md_reward_currency d = Some [] \<Longrightarrow> set_difficulty d = Inl KeyError"
  by (simp add: set_difficulty_def BASE_REWARDS_empty)

lemma set_difficulty_unknown_currency:
  "\<forall>c. md_reward_currency d = Some c \<longrightarrow> BASE_REWARDS c = None \<Longrightarrow> set_difficulty d = Inl KeyError"
  by (simp add: set_difficulty_def split: option.splits)

lemma extract_unknown_currency:
  assumes "\<forall>d. gather_details rt story_text characters = Inr d
              \<longrightarrow> (\<forall>c. md_reward_currency d = Some c \<longrightarrow> BASE_REWARDS c = None)"
  shows "extract_mission_details rt story_text characters = None"
proof (cases "gather_details rt story_text characters")
  case (Inl e)
  then show ?thesis by (simp add: extract_mission_details_def)
next
  case (Inr d)
  with assms have "\<forall>c. md_reward_currency d = Some c \<longrightarrow> BASE_REWARDS c = None" by blast
  then have "set_difficulty d = Inl KeyError" by (rule set_difficulty_unknown_currency)
  with Inr show ?thesis by (simp add: extract_mission_details_def)
qed

text \<open>
  C10. When the extraction leaves the details without a currency that \<open>BASE_REWARDS\<close>
  knows, \<open>extract_mission_details\<close> returns \<open>None\<close>: the lookup that sets the difficulty
  raises \<open>KeyError\<close> and the handler answers \<open>None\<close>. This is the case whenever no reward
  pattern finds a match in the dialogues of the mission givers or in the story text:
  whatever else was extracted, the reward currency is still the empty default, and the empty
  text is not a key of \<open>BASE_REWARDS\<close>.
\<close>

theorem extraction_without_reward_returns_none:
  "((\<forall>d. gather_details rt story_text characters = Inr d
         \<longrightarrow> (\<forall>c. md_reward_currency d = Some c \<longrightarrow> BASE_REWARDS c = None))
      \<longrightarrow> extract_mission_details rt story_text characters = None)
   \<and> ((\<forall>p\<in>set reward_patterns. \<forall>dialogue\<in>set (searched_dialogues rt story_text characters).
          rt_search rt p dialogue = None)
       \<and> rt_search rt GeneralReward story_text = None
      \<longrightarrow> (\<forall>d. gather_details rt story_text characters = Inr d
                 \<longrightarrow> md_reward_currency d = Some [] \<and> set_difficulty d = Inl KeyError)
          \<and> extract_mission_details rt story_text characters = None)
   \<and> BASE_REWARDS [] = None"
proof -
  have a: "(\<forall>d. gather_details rt story_text characters = Inr d
         \<longrightarrow> (\<forall>c. md_reward_currency d = Some c \<longrightarrow> BASE_REWARDS c = None))
      \<longrightarrow> extract_mission_details rt story_text characters = None"
    using extract_unknown_currency by blast
  have b: "(\<forall>d. gather_details rt story_text characters = Inr d
                 \<longrightarrow> md_reward_currency d = Some [] \<and> set_difficulty d = Inl KeyError)
          \<and> extract_mission_details rt story_text characters = None"
    if dialogue: "\<forall>p\<in>set reward_patterns.
                    \<forall>dialogue\<in>set (searched_dialogues rt story_text characters).
                      rt_search rt p dialogue = None"
      and general: "rt_search rt GeneralReward story_text = None"
  proof -
    have g: "\<forall>d. gather_details rt story_text characters = Inr d
                 \<longrightarrow> md_reward_currency d = Some [] \<and> set_difficulty d = Inl KeyError"
      using gather_details_currency [OF dialogue general] set_difficulty_default_currency
      by blast
    then have "\<forall>d. gather_details rt story_text characters = Inr d
              \<longrightarrow> (\<forall>c. md_reward_currency d = Some c \<longrightarrow> BASE_REWARDS c = None)"
      by (auto simp: BASE_REWARDS_empty)
    from extract_unknown_currency [OF this] g show ?thesis by blast
  qed
  from a b BASE_REWARDS_empty show ?thesis by blast
qed

section \<open>The results at the example session\<close>

lemmas ex_eval = ex_nodes_def ex_node_def ex_state_def ex_progress_def ex_meta_def get_node_def
  transition_to_node_def Let_def update_story_history_def history_entry_of_def record_visit_def
  merge_encountered_def list_or_empty_def dict_or_empty_def merge_char_def str_id_def str_int_def
  str_nat.simps snapshot_of_def dict_get_def

text \<open>C5 at node id 99, which the example table does not hold.\<close>

theorem transition_invalid_node_no_mutation_witness:
  "transition_to_node ex_nodes 7 99 True ex_state = (Inl ValueError, ex_state)"
  using transition_invalid_node_no_mutation [of ex_nodes 99 7 True ex_state]
  by (simp add: ex_nodes_def ex_node_def get_node_def)

text \<open>
  C6 as stated fails: the history is \<open>[10, 11]\<close>, the transition goes back to node 10,
  which is not the last entry, and nothing is appended.
\<close>

theorem choice_history_last_entry_counterexample:
  "fst (transition_to_node ex_nodes 7 10 True ex_state) = Inr True
   \<and> choice_history (user_progress ex_state) = Some [10, 11]
   \<and> last [10, 11] \<noteq> (10::int)
   \<and> choice_history (user_progress (snd (transition_to_node ex_nodes 7 10 True ex_state)))
       = Some [10, 11]"
  by (simp add: ex_eval)

text \<open>C6 as the code has it, at a transition to node 12, new to the history.\<close>

theorem choice_history_append_unless_member_witness:
  "choice_history (user_progress (snd (transition_to_node ex_nodes 7 12 True ex_state)))
     = Some [10, 11, 12]"
proof -
  have "fst (transition_to_node ex_nodes 7 12 True ex_state) = Inr True"
    by (simp add: ex_eval)
  then have "transition_to_node ex_nodes 7 12 True ex_state
      = (Inr True, snd (transition_to_node ex_nodes 7 12 True ex_state))"
    by (simp add: prod_eq_iff)
  from choice_history_append_unless_member [OF this]
  show ?thesis by (simp add: ex_state_def ex_progress_def list_or_empty_def)
qed

text \<open>C7 at a transition to node 12, whose metadata lists character 3 (known) and
  character 4 (new, with a backstory that holds \<open>None\<close>): 3 keeps its snapshot, 4 enters
  with what the node lists, and 5, which the node does not list, stays out.\<close>

theorem encountered_characters_write_once_witness:
  "known_characters (user_progress (snd (transition_to_node ex_nodes 7 12 True ex_state))) (lit ''3'')
     = Some ex_old_snapshot
   \<and> known_characters (user_progress (snd (transition_to_node ex_nodes 7 12 True ex_state))) (lit ''4'')
     = Some \<lparr>cs_name = Some (lit ''Voss''), cs_backstory = None,
             cs_plot_lines = Some [lit ''arms deal'']\<rparr>
   \<and> known_characters (user_progress (snd (transition_to_node ex_nodes 7 12 True ex_state))) (lit ''5'')
     = None"
proof -
  have "fst (transition_to_node ex_nodes 7 12 True ex_state) = Inr True"
    by (simp add: ex_eval)
  then have run: "transition_to_node ex_nodes 7 12 True ex_state
      = (Inr True, snd (transition_to_node ex_nodes 7 12 True ex_state))"
    by (simp add: prod_eq_iff)
  have node: "get_node ex_nodes 12 = Some (ex_node 12 (Some 11) (lit ''Mara calls.'') 102 (Some ex_meta))"
    by (simp add: get_node_def ex_nodes_def ex_node_def)
  have old3: "known_characters (user_progress ex_state) (lit ''3'') = Some ex_old_snapshot"
    by (simp add: known_characters_def ex_state_def dict_or_empty_def)
  have old4: "known_characters (user_progress ex_state) (lit ''4'') = None"
    by (simp add: known_characters_def ex_state_def dict_or_empty_def)
  have old5: "known_characters (user_progress ex_state) (lit ''5'') = None"
    by (simp add: known_characters_def ex_state_def dict_or_empty_def)
  have listed4: "map_option snapshot_of
        (find (\<lambda>c. str_id (bc_id c) = lit ''4'')
           (listed_characters (ex_node 12 (Some 11) (lit ''Mara calls.'') 102 (Some ex_meta))))
      = Some \<lparr>cs_name = Some (lit ''Voss''), cs_backstory = None,
              cs_plot_lines = Some [lit ''arms deal'']\<rparr>"
    by (simp add: listed_characters_def ex_node_def ex_meta_def list_or_empty_def str_id_def
        str_int_def str_nat.simps snapshot_of_def dict_get_def lit_def)
  have listed5: "map_option snapshot_of
        (find (\<lambda>c. str_id (bc_id c) = lit ''5'')
           (listed_characters (ex_node 12 (Some 11) (lit ''Mara calls.'') 102 (Some ex_meta))))
      = None"
    by (simp add: listed_characters_def ex_node_def ex_meta_def list_or_empty_def str_id_def
        str_int_def str_nat.simps lit_def)
  from encountered_characters_write_once [OF run] node old3 old4 old5 listed4 listed5
  show ?thesis by auto
qed

text \<open>C8 at four transitions from node 11: to 12, 13, 14 and back to 10.\<close>

theorem history_buffer_bound_witness:
  "length (story_history_buffer (run_transitions ex_calls ex_state)) \<le> 3
   \<and> story_history_buffer (run_transitions ex_calls ex_state)
       = [\<lparr>he_id = 12, he_narrative_text = Some (lit ''Mara calls.''), he_timestamp = 202\<rparr>,
          \<lparr>he_id = 13, he_narrative_text = Some (lit ''The tram leaves.''), he_timestamp = 203\<rparr>,
          \<lparr>he_id = 14, he_narrative_text = Some (lit ''Voss appears.''), he_timestamp = 204\<rparr>]
   \<and> length (story_history_buffer (run_transitions ex_calls ex_state)) = 3"
proof -
  have a: "max_history_nodes ex_state = 3" by (simp add: ex_state_def)
  have b: "length (story_history_buffer ex_state) \<le> 3" by (simp add: ex_state_def)
  have c: "all_succeed ex_calls ex_state"
    by (simp add: ex_calls_def succeeds_def ex_eval)
  have d: "3 < length ex_calls" by (simp add: ex_calls_def)
  have e: "last_n 3 (departed ex_calls ex_state)
       = [\<lparr>he_id = 12, he_narrative_text = Some (lit ''Mara calls.''), he_timestamp = 202\<rparr>,
          \<lparr>he_id = 13, he_narrative_text = Some (lit ''The tram leaves.''), he_timestamp = 203\<rparr>,
          \<lparr>he_id = 14, he_narrative_text = Some (lit ''Voss appears.''), he_timestamp = 204\<rparr>]"
    by (simp add: ex_calls_def succeeds_def last_n_def ex_eval)
  from history_buffer_bound [OF a b, of ex_calls] c d e show ?thesis by simp
qed

text \<open>C2 at three requests: story 1 (the pointer decides), story 2 (the pointer belongs to
  story 1, the latest node of story 2 decides), story 3 (no node at all).\<close>

theorem resolve_current_node_priority_witness:
  "resolve_current_node ex_stories ex_nodes2 (Some 1) ex_state
     = Some (ex_node 10 None (lit ''Rain over Vienna.'') 100 None)
   \<and> resolve_current_node ex_stories ex_nodes2 (Some 2) ex_state
     = Some \<lparr>n_id = 21, n_story_id = 2, n_parent_node_id = Some 20,
             n_narrative_text = Some (lit ''The vault.''), n_created_at = 60, n_branch_metadata = None\<rparr>
   \<and> resolve_current_node ex_stories ex_nodes2 (Some 3) ex_state = None"
proof -
  have t1: "target_story_id (Some 1) ex_state = Some 1" and t2: "target_story_id (Some 2) ex_state = Some 2"
    and t3: "target_story_id (Some 3) ex_state = Some 3"
    by (simp_all add: target_story_id_def truthy_id_def)
  have s1: "get_story ex_stories 1 = Some ex_story"
    by (simp add: get_story_def ex_stories_def ex_story_def)
  have s2: "get_story ex_stories 2 = Some \<lparr>s_id = 2, s_primary_conflict = lit ''heist'', s_setting = lit ''Lisbon''\<rparr>"
    by (simp add: get_story_def ex_stories_def ex_story_def)
  have s3: "get_story ex_stories 3 = Some \<lparr>s_id = 3, s_primary_conflict = lit ''defection'', s_setting = lit ''Berlin''\<rparr>"
    by (simp add: get_story_def ex_stories_def ex_story_def)
  have p1: "pointer_node ex_nodes2 1 ex_state = Some (ex_node 10 None (lit ''Rain over Vienna.'') 100 None)"
    by (simp add: pointer_node_def ex_state_def ex_progress_def get_node_def ex_nodes2_def ex_nodes_def
        ex_node_def)
  have p2: "pointer_node ex_nodes2 2 ex_state = None"
    by (simp add: pointer_node_def ex_state_def ex_progress_def get_node_def ex_nodes2_def ex_nodes_def
        ex_node_def)
  have l2: "latest_node ex_nodes2 2 = Some \<lparr>n_id = 21, n_story_id = 2, n_parent_node_id = Some 20,
             n_narrative_text = Some (lit ''The vault.''), n_created_at = 60, n_branch_metadata = None\<rparr>"
    by (simp add: latest_node_def ex_nodes2_def ex_nodes_def ex_node_def)
  have p3: "pointer_node ex_nodes2 3 ex_state = None"
    by (simp add: pointer_node_def ex_state_def ex_progress_def get_node_def ex_nodes2_def ex_nodes_def
        ex_node_def)
  have l3: "latest_node ex_nodes2 3 = None"
    by (simp add: latest_node_def ex_nodes2_def ex_nodes_def ex_node_def)
  have r3: "root_node ex_nodes2 3 = None"
    by (simp add: root_node_def ex_nodes2_def ex_nodes_def ex_node_def)
  have one: "1 \<noteq> (0::int)" and two: "2 \<noteq> (0::int)" and three: "3 \<noteq> (0::int)" by simp_all
  from resolve_current_node_priority [OF t1 one s1, of ex_nodes2] p1
  have a: "resolve_current_node ex_stories ex_nodes2 (Some 1) ex_state
     = Some (ex_node 10 None (lit ''Rain over Vienna.'') 100 None)" by blast
  from resolve_current_node_priority [OF t2 two s2, of ex_nodes2] p2 l2
  have b: "resolve_current_node ex_stories ex_nodes2 (Some 2) ex_state
     = Some \<lparr>n_id = 21, n_story_id = 2, n_parent_node_id = Some 20,
             n_narrative_text = Some (lit ''The vault.''), n_created_at = 60, n_branch_metadata = None\<rparr>"
    by blast
  from resolve_current_node_priority [OF t3 three s3, of ex_nodes2] p3 l3 r3
  have c: "resolve_current_node ex_stories ex_nodes2 (Some 3) ex_state = None" by blast
  from a b c show ?thesis by simp
qed

lemma spec_ancestors_numeral:
  "spec_ancestors (numeral k) nodes p =
     (case p of
        None \<Rightarrow> []
      | Some pid \<Rightarrow>
          if pid = 0 then []
          else (case get_node nodes pid of
                  None \<Rightarrow> []
                | Some parent \<Rightarrow>
                    parent # spec_ancestors (pred_numeral k) nodes (n_parent_node_id parent)))"
  by (simp add: numeral_eq_Suc)

text \<open>
  C9 as stated fails: the parent of node 41 has a text of 201 characters, and in the context
  of node 41 its line carries 203 characters after the label, the first 200 of the text and
  three dots.
\<close>

theorem truncation_counterexample:
  "get_enhanced_context [] ex_long_nodes 41
     = lit ''RECENT STORY HISTORY:'' @ [10]
       @ lit ''SCENE 1: '' @ replicate 200 97 @ lit ''...'' @ [10]
   \<and> length (replicate 200 (97::nat) @ lit ''...'') = 203"
  by (simp add: get_enhanced_context_def get_enhanced_context_body_def get_node_def
      ex_long_nodes_def key_node_ids_of_def key_section_def collect_ancestors.simps
      ancestor_section_def truncated_def mission_section_def Let_def str_nat.simps lit_def)

text \<open>C9 as the code has it: at node 12 of the example table (one key node found, two
  ancestors, a mission snapshot whose objective holds \<open>None\<close>), at a node whose parent has
  no text, at a node whose mission snapshot holds \<open>None\<close>, at an id that resolves to
  nothing, and at a text of 19 characters cut to 5.\<close>

theorem get_enhanced_context_structure_witness:
  "get_enhanced_context ex_arcs ex_nodes 12 =
     spec_join
       [lit ''KEY PLOT POINTS:'',
        lit ''MOMENT 1: Rain over Vienna.'',
        [],
        lit ''RECENT STORY HISTORY:'',
        lit ''SCENE 1: Rain over Vienna.'',
        lit ''SCENE 2: A courier waits.'',
        [],
        lit ''CURRENT MISSION:'',
        lit ''Title: Tail the courier'',
        lit ''Objective: None'',
        lit ''Status: active'',
        lit ''Progress: 80%'',
        []]
   \<and> get_enhanced_context ex_arcs ex_nodes3 32 = []
   \<and> get_enhanced_context ex_arcs ex_nodes3 33 = []
   \<and> get_enhanced_context ex_arcs ex_nodes 99 = []
   \<and> length (spec_clip 5 (lit ''Static on the line.'')) = 8"
proof -
  have a: "get_enhanced_context ex_arcs ex_nodes 12 =
     spec_join
       [lit ''KEY PLOT POINTS:'',
        lit ''MOMENT 1: Rain over Vienna.'',
        [],
        lit ''RECENT STORY HISTORY:'',
        lit ''SCENE 1: Rain over Vienna.'',
        lit ''SCENE 2: A courier waits.'',
        [],
        lit ''CURRENT MISSION:'',
        lit ''Title: Tail the courier'',
        lit ''Objective: None'',
        lit ''Status: active'',
        lit ''Progress: 80%'',
        []]"
    using get_enhanced_context_structure [of ex_arcs ex_nodes 12 None 5 "lit ''Static on the line.''"]
    by (simp add: ex_arcs_def ex_nodes_def ex_node_def ex_meta_def get_node_def spec_key_nodes_def
        key_node_ids_of_def list_or_empty_def spec_ancestors_numeral spec_context_def spec_section_def
        spec_line_def spec_clip_def get_or_def spec_mission_section_def spec_snapshot_def
        spec_shown_def mission_info_null_def str_int_def str_nat.simps lit_def)
  have b: "get_enhanced_context ex_arcs ex_nodes3 32 = []"
    using get_enhanced_context_structure [of ex_arcs ex_nodes3 32 None 5 "lit ''Static on the line.''"]
    by (simp add: ex_arcs_def ex_nodes3_def get_node_def spec_key_nodes_def
        key_node_ids_of_def list_or_empty_def spec_ancestors_numeral)
  have b': "get_enhanced_context ex_arcs ex_nodes3 33 = []"
    using get_enhanced_context_structure [of ex_arcs ex_nodes3 33 None 5 "lit ''Static on the line.''"]
    by (simp add: ex_arcs_def ex_nodes3_def get_node_def mission_info_null_def)
  have c: "get_enhanced_context ex_arcs ex_nodes 99 = []"
    using get_enhanced_context_structure [of ex_arcs ex_nodes 99 None 5 "lit ''Static on the line.''"]
    by (simp add: ex_nodes_def ex_node_def get_node_def)
  have d: "length (spec_clip 5 (lit ''Static on the line.'')) = 8"
    using get_enhanced_context_structure [of ex_arcs ex_nodes 99 None 5 "lit ''Static on the line.''"]
    by (simp add: lit_def)
  from a b b' c d show ?thesis by blast
qed

lemmas world_eval = ex_world_def ex_state_def ex_progress_def ex_stories_def ex_story_def
  ex_nodes_def ex_node_def ex_meta_def reload_state_def if_id_def get_story_def get_node_def
  resolve_current_node_def resolve_current_node_body_def target_story_id_def truthy_id_def
  pointer_node_def Let_def

lemma ex_world_reaches_generation: "reaches_generation ex_world"
  by (simp add: reaches_generation_def world_eval)

text \<open>
  C1 as stated fails: the persisted count is 2, the generation call fails, no node is
  created, and afterwards the count of the \<open>GameState\<close> object is 3. The persisted count is
  3 as well when the commit inside \<open>increment_node_count\<close> was durable; when it only
  released the savepoint, the rollback takes the persisted count back to 2 and the object's
  count stays 3.
\<close>

theorem failed_generation_counterexample:
  "fst (make_choice Committed 300 ex_meta [] (Inl GenerationError) ex_world) = Inl RuntimeError
   \<and> node_count (stored_progress ex_world) = 2
   \<and> gs_node_count (state (snd (make_choice Committed 300 ex_meta [] (Inl GenerationError) ex_world))) = 3
   \<and> node_count (stored_progress (snd (make_choice Committed 300 ex_meta [] (Inl GenerationError) ex_world))) = 3
   \<and> session_nodes (snd (make_choice Committed 300 ex_meta [] (Inl GenerationError) ex_world)) = ex_nodes
   \<and> stored_nodes (snd (make_choice Committed 300 ex_meta [] (Inl GenerationError) ex_world)) = ex_nodes
   \<and> fst (make_choice Released 300 ex_meta [] (Inl GenerationError) ex_world) = Inl RuntimeError
   \<and> gs_node_count (state (snd (make_choice Released 300 ex_meta [] (Inl GenerationError) ex_world))) = 3
   \<and> node_count (stored_progress (snd (make_choice Released 300 ex_meta [] (Inl GenerationError) ex_world))) = 2
   \<and> session_nodes (snd (make_choice Released 300 ex_meta [] (Inl GenerationError) ex_world)) = ex_nodes"
  by (simp add: make_choice_def make_choice_body_generation_failed [OF ex_world_reaches_generation]
      increment_node_count_fields)
     (simp add: ex_world_def ex_progress_def)

text \<open>C1 as the code has it, at the example world with a durable commit.\<close>

theorem failed_generation_keeps_increment_witness:
  "\<exists>w'. make_choice Committed 300 ex_meta [] (Inl GenerationError) ex_world = (Inl RuntimeError, w')
       \<and> gs_node_count (state w') = 3
       \<and> node_count (stored_progress w') = 3
       \<and> session_nodes w' = ex_nodes
       \<and> stored_nodes w' = ex_nodes"
proof -
  have r: "reaches_generation ex_world"
    by (simp add: reaches_generation_def world_eval)
  from failed_generation_keeps_increment [OF r, of Committed 300 ex_meta "[]" GenerationError]
  obtain w' where "make_choice Committed 300 ex_meta [] (Inl GenerationError) ex_world = (Inl RuntimeError, w')"
    "gs_node_count (state w') = node_count (stored_progress ex_world) + 1"
    "node_count (stored_progress w') = node_count (stored_progress ex_world) + 1"
    "session_nodes w' = session_nodes ex_world" "stored_nodes w' = session_nodes w'"
    by auto
  then show ?thesis
    by (intro exI [of _ w']) (simp add: ex_world_def ex_progress_def)
qed

text \<open>The same call with a generated segment and no mission in the response: node 15 is
  created under node 12, the session moves to it and the count is 3. With a mission in the
  response the node is committed all the same and the call raises afterwards.\<close>

lemma make_choice_success_example:
  "fst (make_choice Committed 300 ex_meta []
          (Inr \<lparr>seg_narrative_text = lit ''A door opens.'', seg_mission_update = None\<rparr>) ex_world)
     = Inr \<lparr>n_id = 15, n_story_id = 1, n_parent_node_id = Some 12,
            n_narrative_text = Some (lit ''A door opens.''), n_created_at = 300,
            n_branch_metadata = Some ex_meta\<rparr>
   \<and> current_node_id (stored_progress (snd (make_choice Committed 300 ex_meta []
          (Inr \<lparr>seg_narrative_text = lit ''A door opens.'', seg_mission_update = None\<rparr>) ex_world)))
     = Some 15
   \<and> node_count (stored_progress (snd (make_choice Committed 300 ex_meta []
          (Inr \<lparr>seg_narrative_text = lit ''A door opens.'', seg_mission_update = None\<rparr>) ex_world)))
     = 3
   \<and> length (stored_nodes (snd (make_choice Committed 300 ex_meta []
          (Inr \<lparr>seg_narrative_text = lit ''A door opens.'', seg_mission_update = None\<rparr>) ex_world)))
     = 6
   \<and> fst (make_choice Committed 300 ex_meta [6]
          (Inr \<lparr>seg_narrative_text = lit ''A door opens.'', seg_mission_update = None\<rparr>) ex_world)
     = Inl RuntimeError
   \<and> length (stored_nodes (snd (make_choice Committed 300 ex_meta [6]
          (Inr \<lparr>seg_narrative_text = lit ''A door opens.'', seg_mission_update = None\<rparr>) ex_world)))
     = 6"
  by (simp add: make_choice_def make_choice_body_def increment_node_count_def commit_def
      rollback_def fresh_id_def transition_to_node_def update_story_history_def
      history_entry_of_def record_visit_def merge_encountered_def list_or_empty_def
      dict_or_empty_def merge_char_def str_id_def str_int_def str_nat.simps snapshot_of_def
      dict_get_def world_eval)

text \<open>C10 at a story in which the giver's dialogue yields an objective and no reward.\<close>

theorem extraction_without_reward_returns_none_witness:
  "extract_mission_details (ex_runtime False) (lit ''Mara said it plainly.'') (Some ex_characters)
     = None
   \<and> searched_dialogues (ex_runtime False) (lit ''Mara said it plainly.'') (Some ex_characters)
     = [lit ''I need you to follow Voss.'']
   \<and> gather_details (ex_runtime False) (lit ''Mara said it plainly.'') (Some ex_characters)
     = Inr (initial_details\<lparr>md_giver := Some (lit ''Mara''), md_giver_id := Some 3,
                             md_objective := lit ''follow Voss''\<rparr>)
   \<and> md_reward_currency (initial_details\<lparr>md_giver := Some (lit ''Mara''), md_giver_id := Some 3,
                             md_objective := lit ''follow Voss''\<rparr>) = Some []
   \<and> BASE_REWARDS [] = None"
proof -
  have s: "searched_dialogues (ex_runtime False) (lit ''Mara said it plainly.'') (Some ex_characters)
     = [lit ''I need you to follow Voss.'']"
    by (simp add: searched_dialogues_def giver_dialogues_def list_or_empty_def ex_characters_def
        is_mission_giver_def get_or_def ex_runtime_def py_or_def truthy_str_def group_def
        strip_quotes_def lit_def)
  have none: "(\<forall>p\<in>set reward_patterns.
       \<forall>dialogue\<in>set (searched_dialogues (ex_runtime False) (lit ''Mara said it plainly.'')
                        (Some ex_characters)).
         rt_search (ex_runtime False) p dialogue = None)
     \<and> rt_search (ex_runtime False) GeneralReward (lit ''Mara said it plainly.'') = None"
    by (simp add: s) (simp add: reward_patterns_def ex_runtime_def)
  have g: "gather_details (ex_runtime False) (lit ''Mara said it plainly.'') (Some ex_characters)
     = Inr (initial_details\<lparr>md_giver := Some (lit ''Mara''), md_giver_id := Some 3,
                             md_objective := lit ''follow Voss''\<rparr>)"
    by (simp add: gather_details_def Let_def list_or_empty_def ex_characters_def
        is_mission_giver_def get_or_def ex_runtime_def process_giver_def py_or_def truthy_str_def
        process_dialogue_def group_def villain_patterns_def objective_patterns_def
        deadline_patterns_def reward_patterns_def initial_details_def truthy_id_def lit_def)
  from extraction_without_reward_returns_none
         [of "ex_runtime False" "lit ''Mara said it plainly.''" "Some ex_characters"] none
  have "extract_mission_details (ex_runtime False) (lit ''Mara said it plainly.'') (Some ex_characters)
     = None" by blast
  with s g extraction_without_reward_returns_none
         [of "ex_runtime False" "lit ''Mara said it plainly.''" "Some ex_characters"]
  show ?thesis by (simp add: initial_details_def)
qed

text \<open>With a reward of 5,000 dollars in the dialogue the same call returns the details, and
  the difficulty is \<open>hard\<close>.\<close>

lemma extraction_with_reward_example:
  "extract_mission_details (ex_runtime True) (lit ''Mara said it plainly.'') (Some ex_characters)
     = Some (initial_details\<lparr>md_giver := Some (lit ''Mara''), md_giver_id := Some 3,
                              md_objective := lit ''follow Voss'', md_reward_amount := 5000,
                              md_reward_currency := Some [128181], md_difficulty := lit ''hard''\<rparr>)"
  by (simp add: extract_mission_details_def set_difficulty_def BASE_REWARDS_def
        gather_details_def Let_def list_or_empty_def ex_characters_def
        is_mission_giver_def get_or_def ex_runtime_def process_giver_def py_or_def truthy_str_def
        process_dialogue_def group_def villain_patterns_def objective_patterns_def
        deadline_patterns_def reward_patterns_def read_reward_def remove_commas_def
        initial_details_def truthy_id_def lit_def)

end
